theory Spec2Isabelle
  imports Main
begin

text \<open>
  The workflow engine of the Block Builder (directory \<open>block-builder\<close>): the retry loop and
  the circuit breaker, the nodes of the workflow and the graph that runs them, and the
  persistence of workflow states. Each TypeScript function is translated into a function of
  the same name; what a function reads from outside (connector answers, the clock, the
  disk) is an argument, and what it throws is a value of its result.
\<close>

section \<open>JavaScript values and JSON\<close>

text \<open>A JavaScript \<open>Error\<close> object, as far as the code reads it: its name and message.\<close>

record js_error =
  err_name :: string
  err_message :: string

text \<open>
  The values that a state object can hold at run time. Numbers are integers (counts and
  milliseconds), with \<open>JNonFinite\<close> for \<open>NaN\<close> and the infinities. An object is the list
  of its own enumerable properties. An \<open>Error\<close> keeps \<open>message\<close> and \<open>stack\<close> as
  non-enumerable properties and inherits \<open>name\<close>.
\<close>

datatype js_value =
    JUndefined
  | JNull
  | JBoolean bool
  | JNumber int
  | JNonFinite
  | JString string
  | JArray "js_value list"
  | JObject "(string \<times> js_value) list"
  | JErrorObject js_error

text \<open>A JSON document, which is what a file written by \<open>JSON.stringify\<close> holds.\<close>

datatype json =
    JsonNull
  | JsonBoolean bool
  | JsonNumber int
  | JsonString string
  | JsonArray "json list"
  | JsonObject "(string \<times> json) list"

text \<open>
  \<open>JSON.stringify\<close>, after the language's \<open>SerializeJSONProperty\<close>: \<open>undefined\<close> has no
  JSON form (the result is \<open>undefined\<close>, here \<open>None\<close>), so a property with that value is
  left out of an object and an array element with that value becomes \<open>null\<close>; a number
  that is not finite becomes \<open>null\<close>; an \<open>Error\<close> becomes \<open>{}\<close>, having no enumerable
  property of its own.
\<close>

fun JSON_stringify :: "js_value \<Rightarrow> json option" where
  "JSON_stringify JUndefined = None"
| "JSON_stringify JNull = Some JsonNull"
| "JSON_stringify (JBoolean b) = Some (JsonBoolean b)"
| "JSON_stringify (JNumber n) = Some (JsonNumber n)"
| "JSON_stringify JNonFinite = Some JsonNull"
| "JSON_stringify (JString s) = Some (JsonString s)"
| "JSON_stringify (JArray vs) =
     Some (JsonArray (map (\<lambda>v. case JSON_stringify v of None \<Rightarrow> JsonNull | Some j \<Rightarrow> j) vs))"
| "JSON_stringify (JObject kvs) =
     Some (JsonObject (concat (map
        (\<lambda>(k, v). case JSON_stringify v of None \<Rightarrow> [] | Some j \<Rightarrow> [(k, j)]) kvs)))"
| "JSON_stringify (JErrorObject e) = Some (JsonObject [])"

fun JSON_parse :: "json \<Rightarrow> js_value" where
  "JSON_parse JsonNull = JNull"
| "JSON_parse (JsonBoolean b) = JBoolean b"
| "JSON_parse (JsonNumber n) = JNumber n"
| "JSON_parse (JsonString s) = JString s"
| "JSON_parse (JsonArray js) = JArray (map JSON_parse js)"
| "JSON_parse (JsonObject kjs) = JObject (map (\<lambda>(k, j). (k, JSON_parse j)) kjs)"

text \<open>
  The values that JSON can represent: no \<open>undefined\<close>, no non-finite number and no
  \<open>Error\<close> object anywhere inside.
\<close>

fun json_representable :: "js_value \<Rightarrow> bool" where
  "json_representable JUndefined = False"
| "json_representable JNonFinite = False"
| "json_representable (JErrorObject e) = False"
| "json_representable (JArray vs) = list_all json_representable vs"
| "json_representable (JObject kvs) = list_all (\<lambda>(k, v). json_representable v) kvs"
| "json_representable v = True"

section \<open>Data model (types.ts, found in block-builder/src/examples.ts)\<close>

text \<open>
  Timestamps are produced by \<^verbatim>\<open>new Date().toISOString()\<close> and read back by
  \<^verbatim>\<open>new Date(s).getTime()\<close>; the model keeps the instant itself, in milliseconds since
  the epoch, so that \<open>duration\<close> is a difference of two timestamps. Where two interfaces
  of the source share a field name, the record fields carry a short prefix.
\<close>

type_synonym timestamp = int

datatype WorkflowStep =
    INITIALIZED
  | EXTRACTING_DESIGN
  | GETTING_SCREENSHOT
  | AWAITING_USER_INPUT
  | GETTING_METADATA
  | ANALYZING
  | GENERATING
  | VALIDATING
  | UPDATING_SECTION_MODEL
  | COMPLETED
  | FAILED

record WorkflowOptions =
  updateSectionModel :: bool
  validateOutput :: bool
  persistContext :: bool
  skipScreenshot :: bool
  strictValidation :: bool

record WorkflowInput =
  blockName :: string
  figmaUrl :: "string option"
  figmaNodeId :: "string option"
  figmaFileKey :: "string option"
  outputPath :: string
  options :: "WorkflowOptions option"

record DesignContext =
  generatedCode :: string
  dc_nodeId :: string
  fileName :: "string option"
  dc_timestamp :: timestamp

datatype ImageFormat = png | jpg

record Screenshot =
  ss_data :: string
  ss_format :: ImageFormat
  ss_timestamp :: timestamp

text \<open>\<open>FigmaMetadata.structure\<close> is a \<open>Record<string, unknown>\<close>: any object.\<close>

record FigmaMetadata =
  md_nodeId :: string
  nodeName :: string
  nodeType :: string
  md_structure :: js_value
  md_timestamp :: timestamp

datatype BlockType = single | multi_item

record FieldSpec =
  f_name :: string
  f_type :: string
  f_label :: string
  f_component :: string

record ContentStructure =
  containerFields :: "FieldSpec list"
  itemFields :: "FieldSpec list option"

record DesignTokens =
  colors :: "string list"
  typography :: "string list"
  spacing :: "string list"

record BlockAnalysis =
  ba_blockName :: string
  blockType :: BlockType
  contentStructure :: ContentStructure
  designTokens :: DesignTokens
  interactiveElements :: "string list"
  ba_timestamp :: timestamp

record GeneratedFiles =
  css :: string
  javascript :: string
  model :: string
  readme :: "string option"

datatype ValidationStatus = PASSED | FAILED_STATUS

record ValidationSummary =
  totalErrors :: int
  totalWarnings :: int
  status :: ValidationStatus

record ValidationResult =
  validated :: bool
  vr_errors :: "string list"
  warnings :: "string list"
  summary :: ValidationSummary

datatype InputType = screenshot_input | confirmation_input | text_input

record AwaitingUserInput =
  requestedAt :: timestamp
  promptMessage :: string
  inputType :: InputType

text \<open>
  \<open>WorkflowError.error\<close> is written in two ways: the object literals of the stages leave
  the key out, \<open>createWorkflowError\<close> always writes it, with the value \<open>undefined\<close> when
  it is given no \<open>Error\<close>. The two objects differ (in their keys, so for deep equality),
  hence the three cases.
\<close>

datatype 'a optional_property = Missing | Undefined | Defined 'a

record WorkflowError =
  step :: WorkflowStep
  message :: string
  we_error :: "js_error optional_property"
  we_timestamp :: timestamp
  retryable :: bool
  requiresUserInput :: "bool option"
  userPrompt :: "string option"

record WorkflowState =
  input :: WorkflowInput
  designContext :: "DesignContext option"
  screenshot :: "Screenshot option"
  userProvidedScreenshot :: "bool option"
  metadata :: "FigmaMetadata option"
  analysis :: "BlockAnalysis option"
  generatedFiles :: "GeneratedFiles option"
  validation :: "ValidationResult option"
  sectionModelUpdated :: "bool option"
  currentStep :: WorkflowStep
  awaitingUserInput :: "AwaitingUserInput option"
  errors :: "WorkflowError list"
  startTime :: timestamp
  endTime :: "timestamp option"
  duration :: "int option"

record 'a MCPToolResult =
  success :: bool
  data :: "'a option"
  error :: "string option"

text \<open>The stages' test \<^verbatim>\<open>!result.success || !result.data\<close>.\<close>

definition call_failed :: "'a MCPToolResult \<Rightarrow> bool" where
  "call_failed r = (\<not> success r \<or> data r = None)"

text \<open>
  JavaScript truthiness of an optional string (\<^verbatim>\<open>if (!nodeId)\<close>, \<^verbatim>\<open>a || b\<close>):
  \<open>undefined\<close> and the empty string are falsy.
\<close>

definition truthy :: "string option \<Rightarrow> bool" where
  "truthy s = (case s of None \<Rightarrow> False | Some v \<Rightarrow> v \<noteq> [])"

definition or_else :: "string option \<Rightarrow> string \<Rightarrow> string" where
  "or_else s d = (case s of None \<Rightarrow> d | Some v \<Rightarrow> if v = [] then d else v)"

text \<open>\<^verbatim>\<open>state.input.options?.flag\<close> used as a condition: a missing \<open>options\<close> is falsy.\<close>

definition option_flag :: "(WorkflowOptions \<Rightarrow> bool) \<Rightarrow> WorkflowState \<Rightarrow> bool" where
  "option_flag flag state = (case options (input state) of None \<Rightarrow> False | Some opts \<Rightarrow> flag opts)"

text \<open>
  ASCII case folding, as \<open>toLowerCase\<close> and the \<open>i\<close> flag of a regular expression do on
  the Latin letters.
\<close>

definition toLowerAscii :: "char \<Rightarrow> char" where
  "toLowerAscii c =
     (let n = (of_char c :: nat) in if 65 \<le> n \<and> n \<le> 90 then char_of (n + 32) else c)"

definition toLowerCase :: "string \<Rightarrow> string" where
  "toLowerCase s = map toLowerAscii s"

section \<open>Retry layer (retry.ts, in block-builder/src/retry.ts)\<close>

text \<open>
  JavaScript can throw any value. \<open>retryWithBackoff\<close> keeps an \<open>Error\<close> as it is and
  wraps everything else: \<^verbatim>\<open>error instanceof Error ? error : new Error(String(error))\<close>.
\<close>

datatype thrown = ThrownError js_error | ThrownOther string

definition toError :: "thrown \<Rightarrow> js_error" where
  "toError t = (case t of
       ThrownError e \<Rightarrow> e
     | ThrownOther s \<Rightarrow> \<lparr>err_name = ''Error'', err_message = s\<rparr>)"

text \<open>The numbers of a configuration are integers: a count and milliseconds.\<close>

record RetryConfig =
  maxRetries :: int
  initialDelay :: int
  maxDelay :: int
  backoffMultiplier :: int

definition DEFAULT_RETRY_CONFIG :: RetryConfig where
  "DEFAULT_RETRY_CONFIG =
     \<lparr>maxRetries = 3, initialDelay = 1000, maxDelay = 10000, backoffMultiplier = 2\<rparr>"

text \<open>\<open>Partial<RetryConfig>\<close>: a key that is absent is \<open>None\<close>.\<close>

record PartialRetryConfig =
  p_maxRetries :: "int option"
  p_initialDelay :: "int option"
  p_maxDelay :: "int option"
  p_backoffMultiplier :: "int option"

definition resolveConfig :: "PartialRetryConfig \<Rightarrow> RetryConfig" where
  "resolveConfig c =
     \<lparr>maxRetries = (case p_maxRetries c of None \<Rightarrow> maxRetries DEFAULT_RETRY_CONFIG | Some v \<Rightarrow> v),
      initialDelay = (case p_initialDelay c of None \<Rightarrow> initialDelay DEFAULT_RETRY_CONFIG | Some v \<Rightarrow> v),
      maxDelay = (case p_maxDelay c of None \<Rightarrow> maxDelay DEFAULT_RETRY_CONFIG | Some v \<Rightarrow> v),
      backoffMultiplier =
        (case p_backoffMultiplier c of None \<Rightarrow> backoffMultiplier DEFAULT_RETRY_CONFIG | Some v \<Rightarrow> v)\<rparr>"

text \<open>
  What a call of \<open>retryWithBackoff\<close> does, in order: invocations of the wrapped function
  (with the attempt index), calls of the optional \<open>onRetry\<close> callback (\<open>onRetry\<close> tells
  whether there is one; it is taken to return), and sleeps (\<open>setTimeout\<close> with the current
  delay).
\<close>

datatype retry_event = Invoke nat | OnRetry nat js_error | Sleep int

record 'a retry_run =
  events :: "retry_event list"
  outcome :: "js_error option + 'a"

text \<open>
  The wrapped function is a closure that may answer differently each time: \<open>fn k\<close> is
  the outcome of its invocation in attempt \<open>k\<close> (\<open>Inl\<close> a thrown value, \<open>Inr\<close> the
  resolved value). \<open>lastError\<close> starts \<open>undefined\<close> (\<open>None\<close>); the final
  \<^verbatim>\<open>throw lastError\<close> is the \<open>Inl\<close> outcome.
\<close>

function retry_loop ::
  "(nat \<Rightarrow> thrown + 'a) \<Rightarrow> bool \<Rightarrow> int \<Rightarrow> int \<Rightarrow> int \<Rightarrow> nat \<Rightarrow> int \<Rightarrow> js_error option \<Rightarrow> 'a retry_run"
where
  "retry_loop fn onRetry maxR maxD mult attempt delay lastError =
     (if int attempt \<le> maxR then
        (case fn attempt of
           Inr v \<Rightarrow> \<lparr>events = [Invoke attempt], outcome = Inr v\<rparr>
         | Inl t \<Rightarrow>
             (let e = toError t in
              if int attempt < maxR then
                (let r = retry_loop fn onRetry maxR maxD mult (Suc attempt)
                           (min (delay * mult) maxD) (Some e)
                 in r\<lparr>events := Invoke attempt #
                        (if onRetry then [OnRetry (attempt + 1) e] else []) @
                        Sleep delay # events r\<rparr>)
              else
                (let r = retry_loop fn onRetry maxR maxD mult (Suc attempt) delay (Some e)
                 in r\<lparr>events := Invoke attempt # events r\<rparr>)))
      else \<lparr>events = [], outcome = Inl lastError\<rparr>)"
  by pat_completeness auto
termination
  by (relation "measure (\<lambda>(fn, onRetry, maxR, maxD, mult, attempt, delay, lastError).
        nat (maxR + 1 - int attempt))") auto

definition retryWithBackoff ::
  "(nat \<Rightarrow> thrown + 'a) \<Rightarrow> PartialRetryConfig \<Rightarrow> bool \<Rightarrow> 'a retry_run" where
  "retryWithBackoff fn config onRetry =
     (let c = resolveConfig config
      in retry_loop fn onRetry (maxRetries c) (maxDelay c) (backoffMultiplier c) 0
           (initialDelay c) None)"

declare retry_loop.simps [simp del]

text \<open>The events of a run, by kind.\<close>

fun invoked :: "retry_event list \<Rightarrow> nat list" where
  "invoked [] = []"
| "invoked (Invoke k # es) = k # invoked es"
| "invoked (_ # es) = invoked es"

fun slept :: "retry_event list \<Rightarrow> int list" where
  "slept [] = []"
| "slept (Sleep d # es) = d # slept es"
| "slept (_ # es) = slept es"

text \<open>
  The delay sequence in the words of the specification:
  \<open>delay_0 = initialDelay\<close>, \<open>delay_{n+1} = min(delay_n * backoffMultiplier, maxDelay)\<close>.
\<close>

fun delay_seq :: "RetryConfig \<Rightarrow> nat \<Rightarrow> int" where
  "delay_seq c 0 = initialDelay c"
| "delay_seq c (Suc n) = min (delay_seq c n * backoffMultiplier c) (maxDelay c)"

text \<open>
  What the specification expects to see of a failed attempt \<open>k\<close> that is retried: the
  invocation, the callback (if there is one) with the number of the round and the error, and
  the sleep of \<open>delay_k\<close>; the next attempt comes directly after.
\<close>

definition backoff_round ::
  "RetryConfig \<Rightarrow> bool \<Rightarrow> (nat \<Rightarrow> thrown + 'a) \<Rightarrow> nat \<Rightarrow> retry_event list" where
  "backoff_round c onRetry fn k =
     Invoke k # (if onRetry then [OnRetry (k + 1) (toError (projl (fn k)))] else []) @
     [Sleep (delay_seq c k)]"

text \<open>The delays of \<open>n\<close> consecutive sleeps of the loop, the first one being \<open>d\<close>.\<close>

fun backoff_from :: "int \<Rightarrow> int \<Rightarrow> int \<Rightarrow> nat \<Rightarrow> int list" where
  "backoff_from mult maxD d 0 = []"
| "backoff_from mult maxD d (Suc n) = d # backoff_from mult maxD (min (d * mult) maxD) n"

subsection \<open>isRetryableError and createWorkflowError\<close>

text \<open>
  Each pattern of \<open>retryablePatterns\<close> is a literal with the \<open>i\<close> flag, so
  \<open>pattern.test(s)\<close> asks whether \<open>s\<close> contains the literal, ignoring case.
\<close>

fun startsWith :: "string \<Rightarrow> string \<Rightarrow> bool" where
  "startsWith [] s = True"
| "startsWith (p # ps) [] = False"
| "startsWith (p # ps) (c # cs) = (p = c \<and> startsWith ps cs)"

fun contains :: "string \<Rightarrow> string \<Rightarrow> bool" where
  "contains p [] = startsWith p []"
| "contains p (c # cs) = (startsWith p (c # cs) \<or> contains p cs)"

definition pattern_test :: "string \<Rightarrow> string \<Rightarrow> bool" where
  "pattern_test pattern s = contains (toLowerCase pattern) (toLowerCase s)"

definition retryablePatterns :: "string list" where
  "retryablePatterns =
     [''timeout'', ''network'', ''connection'', ''ECONNREFUSED'', ''ETIMEDOUT'', ''rate limit'',
      ''too many requests'', ''503'', ''504'']"

definition isRetryableError :: "js_error \<Rightarrow> bool" where
  "isRetryableError e =
     list_ex (\<lambda>pattern. pattern_test pattern (err_message e) \<or> pattern_test pattern (err_name e))
       retryablePatterns"

definition createWorkflowError ::
  "WorkflowStep \<Rightarrow> string \<Rightarrow> js_error option \<Rightarrow> bool option \<Rightarrow> timestamp \<Rightarrow> WorkflowError" where
  "createWorkflowError stp msg err retry now =
     \<lparr>step = stp, message = msg,
      we_error = (case err of None \<Rightarrow> Undefined | Some e \<Rightarrow> Defined e), we_timestamp = now,
      retryable = (case retry of
                     Some b \<Rightarrow> b
                   | None \<Rightarrow> (case err of Some e \<Rightarrow> isRetryableError e | None \<Rightarrow> False)),
      requiresUserInput = None, userPrompt = None\<rparr>"

subsection \<open>CircuitBreaker\<close>

datatype breaker_state = Closed | Open | HalfOpen

record CircuitBreaker =
  failures :: int
  lastFailureTime :: "int option"
  cb_state :: breaker_state
  threshold :: int
  resetTimeout :: int

text \<open>The constructor: \<open>threshold\<close> defaults to 5 and \<open>resetTimeout\<close> to 60000.\<close>

definition new_CircuitBreaker :: "int option \<Rightarrow> int option \<Rightarrow> CircuitBreaker" where
  "new_CircuitBreaker thr rst =
     \<lparr>failures = 0, lastFailureTime = None, cb_state = Closed,
      threshold = (case thr of None \<Rightarrow> 5 | Some t \<Rightarrow> t),
      resetTimeout = (case rst of None \<Rightarrow> 60000 | Some t \<Rightarrow> t)\<rparr>"

definition breaker_open_error :: js_error where
  "breaker_open_error =
     \<lparr>err_name = ''Error'', err_message = ''Circuit breaker is open - too many recent failures''\<rparr>"

record 'a execute_result =
  breaker :: CircuitBreaker
  result :: "thrown + 'a"
  attempted :: bool

text \<open>
  One call of \<open>execute\<close>. \<open>now\<close> is what \<open>Date.now()\<close> returns at the gate (read only
  while the breaker is open), \<open>fn\<close> is what the wrapped function does if it is invoked,
  and \<open>failedAt\<close> is what \<open>Date.now()\<close> returns in the \<open>catch\<close> block. The gate tests
  \<^verbatim>\<open>this.lastFailureTime && now - this.lastFailureTime > this.resetTimeout\<close>: a
  \<open>lastFailureTime\<close> that is \<open>undefined\<close> or \<open>0\<close> is falsy. \<open>attempted\<close> tells whether
  the wrapped function was invoked.
\<close>

definition execute :: "CircuitBreaker \<Rightarrow> int \<Rightarrow> (thrown + 'a) \<Rightarrow> int \<Rightarrow> 'a execute_result" where
  "execute cb now fn failedAt =
     (let gate =
        (if cb_state cb = Open then
           (case lastFailureTime cb of
              None \<Rightarrow> None
            | Some t \<Rightarrow>
                if t \<noteq> 0 \<and> now - t > resetTimeout cb then Some (cb\<lparr>cb_state := HalfOpen\<rparr>)
                else None)
         else Some cb)
      in case gate of
           None \<Rightarrow>
             \<lparr>breaker = cb, result = Inl (ThrownError breaker_open_error), attempted = False\<rparr>
         | Some cb1 \<Rightarrow>
             (case fn of
                Inr v \<Rightarrow>
                  \<lparr>breaker = (if cb_state cb1 = HalfOpen then cb1\<lparr>cb_state := Closed, failures := 0\<rparr>
                              else cb1),
                   result = Inr v, attempted = True\<rparr>
              | Inl e \<Rightarrow>
                  (let cb2 = cb1\<lparr>failures := failures cb1 + 1, lastFailureTime := Some failedAt\<rparr>
                   in \<lparr>breaker = (if failures cb2 \<ge> threshold cb2 then cb2\<lparr>cb_state := Open\<rparr>
                                   else cb2),
                       result = Inl e, attempted = True\<rparr>)))"

definition reset :: "CircuitBreaker \<Rightarrow> CircuitBreaker" where
  "reset cb = cb\<lparr>failures := 0, cb_state := Closed, lastFailureTime := None\<rparr>"

definition getState_breaker :: "CircuitBreaker \<Rightarrow> string" where
  "getState_breaker cb =
     (case cb_state cb of Closed \<Rightarrow> ''closed'' | Open \<Rightarrow> ''open'' | HalfOpen \<Rightarrow> ''half-open'')"

text \<open>A sequence of calls through one breaker, each with its clock readings.\<close>

record 'a breaker_call =
  call_now :: int
  call_fn :: "thrown + 'a"
  call_failedAt :: int

fun execute_all :: "CircuitBreaker \<Rightarrow> 'a breaker_call list \<Rightarrow> CircuitBreaker \<times> 'a execute_result list" where
  "execute_all cb [] = (cb, [])"
| "execute_all cb (c # cs) =
     (let r = execute cb (call_now c) (call_fn c) (call_failedAt c);
          (cb', rs) = execute_all (breaker r) cs
      in (cb', r # rs))"

definition failed_calls :: "'a breaker_call list \<Rightarrow> nat" where
  "failed_calls cs = length (filter (\<lambda>c. isl (call_fn c)) cs)"

section \<open>Connector clients (mcp-client.ts, found in block-builder/src/retry.ts)\<close>

text \<open>
  \<open>FigmaMCPClient\<close> and \<open>EDSGeneratorMCPClient\<close> wrap the tool calls: each method
  catches every exception and answers with an \<open>MCPToolResult\<close>. A client is modelled by
  what its methods answer. The stages pass \<open>JSON.stringify(state.metadata)\<close>; the model
  passes the metadata itself.
\<close>

record FigmaMCPClient =
  figma_getDesignContext :: "string \<Rightarrow> DesignContext MCPToolResult"
  figma_getScreenshot :: "string \<Rightarrow> Screenshot MCPToolResult"

record GenerateOptions =
  go_screenshot :: "string option"
  go_metadata :: "FigmaMetadata option"
  go_persistContext :: "bool option"
  go_updateSectionModel :: "bool option"
  go_validateOutput :: "bool option"

record EDSGeneratorMCPClient =
  eds_analyzeBlockStructure ::
    "string \<Rightarrow> string option \<Rightarrow> FigmaMetadata option \<Rightarrow> BlockAnalysis MCPToolResult"
  eds_generateEdsBlock ::
    "string \<Rightarrow> string \<Rightarrow> string \<Rightarrow> GenerateOptions \<Rightarrow> GeneratedFiles MCPToolResult"
  eds_validateBlockOutput :: "string \<Rightarrow> string \<Rightarrow> bool \<Rightarrow> ValidationResult MCPToolResult"

subsection \<open>parseFigmaUrl\<close>

text \<open>
  The two patterns are
  \<^verbatim>\<open>figma\.com\/design\/([^/]+)\/[^?]*\?node-id=([^&]+)\<close> and the same with \<open>file\<close>
  for \<open>design\<close>. Matched at a position, such a pattern has one way to go: the literal,
  the longest run without a slash (not empty, a slash after it), the longest run without a
  question mark, the literal \<open>?node-id=\<close>, the longest run without an ampersand (not
  empty). \<open>url.match\<close> takes the first position at which the pattern matches. \<open>None\<close>
  stands for \<open>null\<close>.
\<close>

record ParsedFigmaUrl =
  p_fileKey :: "string option"
  p_nodeId :: "string option"

fun strip_prefix :: "string \<Rightarrow> string \<Rightarrow> string option" where
  "strip_prefix [] s = Some s"
| "strip_prefix (p # ps) [] = None"
| "strip_prefix (p # ps) (c # cs) = (if p = c then strip_prefix ps cs else None)"

definition match_figma_at :: "string \<Rightarrow> string \<Rightarrow> (string \<times> string) option" where
  "match_figma_at kind s =
     (case strip_prefix (''figma.com/'' @ kind @ ''/'') s of
        None \<Rightarrow> None
      | Some r1 \<Rightarrow>
          (let key = takeWhile (\<lambda>c. c \<noteq> CHR ''/'') r1;
               r2 = dropWhile (\<lambda>c. c \<noteq> CHR ''/'') r1
           in if key = [] then None
              else
                (case strip_prefix ''/'' r2 of
                   None \<Rightarrow> None
                 | Some r3 \<Rightarrow>
                     (case strip_prefix ''?node-id='' (dropWhile (\<lambda>c. c \<noteq> CHR ''?'') r3) of
                        None \<Rightarrow> None
                      | Some r4 \<Rightarrow>
                          (let node = takeWhile (\<lambda>c. c \<noteq> CHR ''&'') r4
                           in if node = [] then None else Some (key, node))))))"

fun first_match :: "(string \<Rightarrow> 'a option) \<Rightarrow> string \<Rightarrow> 'a option" where
  "first_match m [] = m []"
| "first_match m (c # cs) = (case m (c # cs) of Some r \<Rightarrow> Some r | None \<Rightarrow> first_match m cs)"

text \<open>\<^verbatim>\<open>match[2].replace(/-/g, ':')\<close>\<close>

definition dashes_to_colons :: "string \<Rightarrow> string" where
  "dashes_to_colons s = map (\<lambda>c. if c = CHR ''-'' then CHR '':'' else c) s"

definition parseFigmaUrl :: "string \<Rightarrow> ParsedFigmaUrl option" where
  "parseFigmaUrl url =
     (case first_match (match_figma_at ''design'') url of
        Some (key, node) \<Rightarrow> Some \<lparr>p_fileKey = Some key, p_nodeId = Some (dashes_to_colons node)\<rparr>
      | None \<Rightarrow>
          (case first_match (match_figma_at ''file'') url of
             Some (key, node) \<Rightarrow>
               Some \<lparr>p_fileKey = Some key, p_nodeId = Some (dashes_to_colons node)\<rparr>
           | None \<Rightarrow> None))"

subsection \<open>What a run reads from outside\<close>

text \<open>
  Everything a run reads from outside the state: the two clients built from the
  \<open>mcpClient\<close>, and the clock (the instant at which each node reads
  \<open>new Date()\<close>; a node runs at most once in a run and reads the clock once).
\<close>

datatype NodeName =
    initialize
  | extract_design
  | get_screenshot
  | analyze
  | generate
  | validate
  | complete
  | fail

record MCPClient =
  figmaClient :: FigmaMCPClient
  edsClient :: EDSGeneratorMCPClient
  clock :: "NodeName \<Rightarrow> timestamp"

section \<open>Workflow nodes (nodes.ts, found in block-builder/src/chat-integration.ts)\<close>

text \<open>
  A node returns a \<open>Partial<WorkflowState>\<close>: \<open>None\<close> is a key that is absent from the
  returned object. \<open>awaitingUserInput: undefined\<close> is a key that is present and clears
  the field, hence the nested option.
\<close>

record StateUpdate =
  u_input :: "WorkflowInput option"
  u_designContext :: "DesignContext option"
  u_screenshot :: "Screenshot option"
  u_userProvidedScreenshot :: "bool option"
  u_metadata :: "FigmaMetadata option"
  u_analysis :: "BlockAnalysis option"
  u_generatedFiles :: "GeneratedFiles option"
  u_validation :: "ValidationResult option"
  u_sectionModelUpdated :: "bool option"
  u_currentStep :: "WorkflowStep option"
  u_awaitingUserInput :: "AwaitingUserInput option option"
  u_errors :: "WorkflowError list option"
  u_startTime :: "timestamp option"
  u_endTime :: "timestamp option"
  u_duration :: "int option"

definition no_update :: StateUpdate where
  "no_update =
     \<lparr>u_input = None, u_designContext = None, u_screenshot = None,
      u_userProvidedScreenshot = None, u_metadata = None, u_analysis = None,
      u_generatedFiles = None, u_validation = None, u_sectionModelUpdated = None,
      u_currentStep = None, u_awaitingUserInput = None, u_errors = None, u_startTime = None,
      u_endTime = None, u_duration = None\<rparr>"

text \<open>The error object literal that the stages build.\<close>

definition stage_error :: "WorkflowStep \<Rightarrow> string \<Rightarrow> timestamp \<Rightarrow> bool \<Rightarrow> WorkflowError" where
  "stage_error stp msg now retry =
     \<lparr>step = stp, message = msg, we_error = Missing, we_timestamp = now, retryable = retry,
      requiresUserInput = None, userPrompt = None\<rparr>"

text \<open>\<^verbatim>\<open>{ currentStep: FAILED, errors: [...state.errors, error] }\<close>\<close>

definition failed_with :: "WorkflowState \<Rightarrow> WorkflowError \<Rightarrow> StateUpdate" where
  "failed_with state e =
     no_update\<lparr>u_currentStep := Some FAILED, u_errors := Some (errors state @ [e])\<rparr>"

definition initializeWorkflow :: "WorkflowState \<Rightarrow> timestamp \<Rightarrow> StateUpdate" where
  "initializeWorkflow state now =
     (let plain = no_update\<lparr>u_currentStep := Some EXTRACTING_DESIGN, u_startTime := Some now,
                     u_errors := Some []\<rparr>
      in case figmaUrl (input state) of
           None \<Rightarrow> plain
         | Some url \<Rightarrow>
             if url \<noteq> [] \<and> \<not> truthy (figmaNodeId (input state)) then
               (case parseFigmaUrl url of
                  None \<Rightarrow> plain
                | Some parsed \<Rightarrow>
                    if truthy (p_nodeId parsed) then
                      plain\<lparr>u_input := Some ((input state)\<lparr>figmaNodeId := p_nodeId parsed,
                                                figmaFileKey := p_fileKey parsed\<rparr>)\<rparr>
                    else plain)
             else plain)"

definition extractDesignContext ::
  "WorkflowState \<Rightarrow> FigmaMCPClient \<Rightarrow> timestamp \<Rightarrow> StateUpdate" where
  "extractDesignContext state client now =
     (case figmaNodeId (input state) of
        None \<Rightarrow>
          failed_with state (stage_error EXTRACTING_DESIGN ''No Figma node ID provided'' now False)
      | Some nodeId \<Rightarrow>
          if nodeId = [] then
            failed_with state (stage_error EXTRACTING_DESIGN ''No Figma node ID provided'' now False)
          else
            (let result = figma_getDesignContext client nodeId
             in if \<not> success result \<or> data result = None then
                  failed_with state
                    (stage_error EXTRACTING_DESIGN
                       (or_else (error result) ''Failed to extract design context'') now True)
                else
                  no_update\<lparr>u_designContext := data result,
                    u_currentStep := Some (if option_flag skipScreenshot state then ANALYZING
                                           else GETTING_SCREENSHOT)\<rparr>))"

text \<open>
  \<open>interrupt\<close> is LangGraph's: when the node runs without a resume value it raises a
  \<open>GraphInterrupt\<close> carrying its argument, and the graph pauses before the node has
  returned anything; when the graph is resumed with a value, the node is run again from its
  start and \<open>interrupt\<close> returns that value.
\<close>

record InterruptRequest =
  ir_message :: string
  ir_options :: "string list"

datatype UserInput = UserText string | UserImage string ImageFormat

datatype NodeOutcome = Update StateUpdate | Interrupted InterruptRequest

definition interrupt :: "UserInput option \<Rightarrow> InterruptRequest \<Rightarrow> InterruptRequest + UserInput" where
  "interrupt resume request = (case resume of None \<Rightarrow> Inl request | Some v \<Rightarrow> Inr v)"

definition getScreenshot ::
  "WorkflowState \<Rightarrow> FigmaMCPClient \<Rightarrow> timestamp \<Rightarrow> UserInput option \<Rightarrow> NodeOutcome" where
  "getScreenshot state client now resume =
     (let skip = Update (no_update\<lparr>u_currentStep := Some ANALYZING\<rparr>)
      in case figmaNodeId (input state) of
           None \<Rightarrow> skip
         | Some nodeId \<Rightarrow>
             if nodeId = [] then skip
             else
               (let result = figma_getScreenshot client nodeId
                in if \<not> success result \<or> data result = None then
                     (case interrupt resume
                        \<lparr>ir_message =
                           ''Screenshot capture failed: ''
                           @ (case error result of None \<Rightarrow> ''undefined'' | Some e \<Rightarrow> e)
                           @ ''. Please provide a screenshot of the Figma design (node: ''
                           @ nodeId @ '') to improve block generation accuracy.'',
                         ir_options = [''Provide screenshot URL/base64'',
                                       ''Type '' @ [CHR 0x22] @ ''skip'' @ [CHR 0x22]
                                         @ '' to continue without it'']\<rparr>
                      of
                        Inl request \<Rightarrow> Interrupted request
                      | Inr (UserText t) \<Rightarrow>
                          if toLowerCase t = ''skip'' then skip else skip
                      | Inr (UserImage d f) \<Rightarrow>
                          if d \<noteq> [] then
                            Update (no_update\<lparr>
                              u_screenshot := Some \<lparr>ss_data = d, ss_format = f, ss_timestamp = now\<rparr>,
                              u_userProvidedScreenshot := Some True,
                              u_currentStep := Some ANALYZING\<rparr>)
                          else skip)
                   else
                     Update (no_update\<lparr>u_screenshot := data result,
                               u_currentStep := Some ANALYZING\<rparr>)))"

definition has_generatedCode :: "WorkflowState \<Rightarrow> bool" where
  "has_generatedCode state =
     (case designContext state of None \<Rightarrow> False | Some dc \<Rightarrow> generatedCode dc \<noteq> [])"

definition analyzeBlockStructure ::
  "WorkflowState \<Rightarrow> EDSGeneratorMCPClient \<Rightarrow> timestamp \<Rightarrow> StateUpdate" where
  "analyzeBlockStructure state client now =
     (case designContext state of
        None \<Rightarrow>
          failed_with state
            (stage_error ANALYZING ''No design context available for analysis'' now False)
      | Some dc \<Rightarrow>
          if generatedCode dc = [] then
            failed_with state
              (stage_error ANALYZING ''No design context available for analysis'' now False)
          else
            (let result = eds_analyzeBlockStructure client (generatedCode dc)
                            (map_option ss_data (screenshot state)) (metadata state)
             in case data result of
                  None \<Rightarrow>
                    failed_with state
                      (stage_error ANALYZING
                         (or_else (error result) ''Block structure analysis failed'') now True)
                | Some a \<Rightarrow>
                    if \<not> success result then
                      failed_with state
                        (stage_error ANALYZING
                           (or_else (error result) ''Block structure analysis failed'') now True)
                    else
                      no_update\<lparr>
                        u_analysis := Some (a\<lparr>ba_blockName := blockName (input state)\<rparr>),
                        u_currentStep := Some GENERATING\<rparr>))"

definition generateEdsBlock ::
  "WorkflowState \<Rightarrow> EDSGeneratorMCPClient \<Rightarrow> timestamp \<Rightarrow> StateUpdate" where
  "generateEdsBlock state client now =
     (case designContext state of
        None \<Rightarrow>
          failed_with state
            (stage_error GENERATING ''No design context available for generation'' now False)
      | Some dc \<Rightarrow>
          if generatedCode dc = [] then
            failed_with state
              (stage_error GENERATING ''No design context available for generation'' now False)
          else
            (let result = eds_generateEdsBlock client (blockName (input state))
                            (outputPath (input state)) (generatedCode dc)
                            \<lparr>go_screenshot = map_option ss_data (screenshot state),
                             go_metadata = metadata state,
                             go_persistContext = map_option persistContext (options (input state)),
                             go_updateSectionModel =
                               map_option updateSectionModel (options (input state)),
                             go_validateOutput = Some False\<rparr>
             in if \<not> success result \<or> data result = None then
                  failed_with state
                    (stage_error GENERATING (or_else (error result) ''Block generation failed'')
                       now True)
                else
                  no_update\<lparr>
                    u_generatedFiles := data result,
                    u_currentStep := Some
                      (if option_flag validateOutput state then VALIDATING
                       else if option_flag updateSectionModel state then UPDATING_SECTION_MODEL
                       else COMPLETED)\<rparr>))"

definition validateBlock ::
  "WorkflowState \<Rightarrow> EDSGeneratorMCPClient \<Rightarrow> StateUpdate" where
  "validateBlock state client =
     (let blockPath = outputPath (input state) @ ''/'' @ blockName (input state);
          result = eds_validateBlockOutput client blockPath (blockName (input state))
                     (option_flag strictValidation state)
      in if \<not> success result \<or> data result = None then
           no_update\<lparr>u_currentStep := Some
             (if option_flag updateSectionModel state then UPDATING_SECTION_MODEL else COMPLETED)\<rparr>
         else
           no_update\<lparr>
             u_validation := data result,
             u_currentStep := Some
               (if option_flag updateSectionModel state then UPDATING_SECTION_MODEL
                else COMPLETED)\<rparr>)"

definition completeWorkflow :: "WorkflowState \<Rightarrow> timestamp \<Rightarrow> StateUpdate" where
  "completeWorkflow state now =
     no_update\<lparr>u_currentStep := Some COMPLETED, u_endTime := Some now,
       u_duration := Some (now - startTime state)\<rparr>"

definition handleFailure :: "WorkflowState \<Rightarrow> timestamp \<Rightarrow> StateUpdate" where
  "handleFailure state now =
     no_update\<lparr>u_currentStep := Some FAILED, u_endTime := Some now,
       u_duration := Some (now - startTime state)\<rparr>"

definition resumeWithUserInput :: "WorkflowState \<Rightarrow> UserInput \<Rightarrow> timestamp \<Rightarrow> StateUpdate" where
  "resumeWithUserInput state userInput now =
     (case awaitingUserInput state of
        None \<Rightarrow> no_update\<lparr>u_currentStep := Some (currentStep state)\<rparr>
      | Some awaiting \<Rightarrow>
          if inputType awaiting = screenshot_input then
            (case userInput of
               UserText t \<Rightarrow>
                 if toLowerCase t = ''skip'' then
                   no_update\<lparr>u_awaitingUserInput := Some None, u_currentStep := Some ANALYZING\<rparr>
                 else
                   no_update\<lparr>u_awaitingUserInput := Some None, u_currentStep := Some ANALYZING\<rparr>
             | UserImage d f \<Rightarrow>
                 if d \<noteq> [] then
                   no_update\<lparr>
                     u_screenshot := Some \<lparr>ss_data = d, ss_format = f, ss_timestamp = now\<rparr>,
                     u_userProvidedScreenshot := Some True,
                     u_awaitingUserInput := Some None,
                     u_currentStep := Some ANALYZING\<rparr>
                 else
                   no_update\<lparr>u_awaitingUserInput := Some None, u_currentStep := Some ANALYZING\<rparr>)
          else no_update\<lparr>u_currentStep := Some (currentStep state)\<rparr>)"

section \<open>The graph (workflow.ts, in block-builder/src/workflow.ts)\<close>

text \<open>
  \<open>WorkflowStateAnnotation\<close>: a channel without a reducer keeps the last value written to
  it; \<open>errors\<close> has the reducer \<^verbatim>\<open>[...(existing || []), ...(update || [])]\<close>, so what a
  node returns under \<open>errors\<close> is appended to the list already in the state.
\<close>

definition errors_reducer :: "WorkflowError list \<Rightarrow> WorkflowError list \<Rightarrow> WorkflowError list" where
  "errors_reducer existing update = existing @ update"

definition apply_update :: "WorkflowState \<Rightarrow> StateUpdate \<Rightarrow> WorkflowState" where
  "apply_update s u =
     \<lparr>input = (case u_input u of None \<Rightarrow> input s | Some v \<Rightarrow> v),
      designContext = (case u_designContext u of None \<Rightarrow> designContext s | Some v \<Rightarrow> Some v),
      screenshot = (case u_screenshot u of None \<Rightarrow> screenshot s | Some v \<Rightarrow> Some v),
      userProvidedScreenshot =
        (case u_userProvidedScreenshot u of None \<Rightarrow> userProvidedScreenshot s | Some v \<Rightarrow> Some v),
      metadata = (case u_metadata u of None \<Rightarrow> metadata s | Some v \<Rightarrow> Some v),
      analysis = (case u_analysis u of None \<Rightarrow> analysis s | Some v \<Rightarrow> Some v),
      generatedFiles = (case u_generatedFiles u of None \<Rightarrow> generatedFiles s | Some v \<Rightarrow> Some v),
      validation = (case u_validation u of None \<Rightarrow> validation s | Some v \<Rightarrow> Some v),
      sectionModelUpdated =
        (case u_sectionModelUpdated u of None \<Rightarrow> sectionModelUpdated s | Some v \<Rightarrow> Some v),
      currentStep = (case u_currentStep u of None \<Rightarrow> currentStep s | Some v \<Rightarrow> v),
      awaitingUserInput =
        (case u_awaitingUserInput u of None \<Rightarrow> awaitingUserInput s | Some v \<Rightarrow> v),
      errors = (case u_errors u of None \<Rightarrow> errors s | Some es \<Rightarrow> errors_reducer (errors s) es),
      startTime = (case u_startTime u of None \<Rightarrow> startTime s | Some v \<Rightarrow> v),
      endTime = (case u_endTime u of None \<Rightarrow> endTime s | Some v \<Rightarrow> Some v),
      duration = (case u_duration u of None \<Rightarrow> duration s | Some v \<Rightarrow> Some v)\<rparr>"

text \<open>The nodes as \<open>createLangGraphWorkflow\<close> registers them.\<close>

definition run_node :: "MCPClient \<Rightarrow> NodeName \<Rightarrow> WorkflowState \<Rightarrow> NodeOutcome" where
  "run_node mcp n s =
     (case n of
        initialize \<Rightarrow> Update (initializeWorkflow s (clock mcp initialize))
      | extract_design \<Rightarrow>
          Update (extractDesignContext s (figmaClient mcp) (clock mcp extract_design))
      | get_screenshot \<Rightarrow> getScreenshot s (figmaClient mcp) (clock mcp get_screenshot) None
      | analyze \<Rightarrow> Update (analyzeBlockStructure s (edsClient mcp) (clock mcp analyze))
      | generate \<Rightarrow> Update (generateEdsBlock s (edsClient mcp) (clock mcp generate))
      | validate \<Rightarrow> Update (validateBlock s (edsClient mcp))
      | complete \<Rightarrow> Update (completeWorkflow s (clock mcp complete))
      | fail \<Rightarrow> Update (handleFailure s (clock mcp fail)))"

text \<open>
  The edges: \<open>addEdge\<close> for \<open>initialize\<close>, \<open>complete\<close> and \<open>fail\<close>, the routers of
  \<open>addConditionalEdges\<close> for the other nodes. \<open>END\<close> is \<open>'__end__'\<close>.
\<close>

datatype Target = Goto NodeName | END

definition next_target :: "NodeName \<Rightarrow> WorkflowState \<Rightarrow> Target" where
  "next_target n s =
     (case n of
        initialize \<Rightarrow> Goto extract_design
      | extract_design \<Rightarrow> if currentStep s = FAILED then Goto fail else Goto get_screenshot
      | get_screenshot \<Rightarrow>
          if currentStep s = FAILED then Goto fail
          else if currentStep s = AWAITING_USER_INPUT then END
          else Goto analyze
      | analyze \<Rightarrow> if currentStep s = FAILED then Goto fail else Goto generate
      | generate \<Rightarrow> if currentStep s = FAILED then Goto fail else Goto validate
      | validate \<Rightarrow> if currentStep s = FAILED then Goto fail else Goto complete
      | complete \<Rightarrow> END
      | fail \<Rightarrow> END)"

definition node_rank :: "NodeName \<Rightarrow> nat" where
  "node_rank n =
     (case n of
        initialize \<Rightarrow> 7 | extract_design \<Rightarrow> 6 | get_screenshot \<Rightarrow> 5 | analyze \<Rightarrow> 4
      | generate \<Rightarrow> 3 | validate \<Rightarrow> 2 | complete \<Rightarrow> 1 | fail \<Rightarrow> 0)"

text \<open>
  What \<open>graph.invoke\<close> does from a node on: run the node, merge what it returns into the
  state, follow the edge, until \<open>END\<close>. A node that interrupts returns nothing: the run
  stops there and \<open>invoke\<close> returns the state as it was before the node. The graph has no
  cycle, so \<open>recursionLimit: 50\<close> is never reached.
\<close>

record RunResult =
  final_state :: WorkflowState
  executed :: "NodeName list"
  interrupted :: "InterruptRequest option"

function run_from :: "MCPClient \<Rightarrow> NodeName \<Rightarrow> WorkflowState \<Rightarrow> RunResult" where
  "run_from mcp n s =
     (case run_node mcp n s of
        Interrupted request \<Rightarrow>
          \<lparr>final_state = s, executed = [n], interrupted = Some request\<rparr>
      | Update u \<Rightarrow>
          (let s' = apply_update s u
           in case next_target n s' of
                END \<Rightarrow> \<lparr>final_state = s', executed = [n], interrupted = None\<rparr>
              | Goto m \<Rightarrow> (let r = run_from mcp m s' in r\<lparr>executed := n # executed r\<rparr>)))"
  by pat_completeness auto
termination
  by (relation "measure (\<lambda>(mcp, n, s). node_rank n)")
     (auto simp: next_target_def node_rank_def split: NodeName.splits if_splits)

declare run_from.simps [simp del]

text \<open>A run that continues after node \<open>n\<close>.\<close>

definition after :: "NodeName \<Rightarrow> RunResult \<Rightarrow> RunResult" where
  "after n r = r\<lparr>executed := n # executed r\<rparr>"

text \<open>
  A compiled graph: the client its nodes call, and the checkpointer with the latest
  values of every thread. \<open>createWorkflow\<close> takes the checkpointer it is given or makes a
  new, empty \<open>MemorySaver\<close>.
\<close>

type_synonym MemorySaver = "string \<rightharpoonup> WorkflowState"

record CompiledGraph =
  graph_client :: MCPClient
  checkpointer :: MemorySaver

definition createWorkflow :: "MCPClient \<Rightarrow> MemorySaver option \<Rightarrow> CompiledGraph" where
  "createWorkflow mcp saver =
     \<lparr>graph_client = mcp,
      checkpointer = (case saver of None \<Rightarrow> Map.empty | Some m \<Rightarrow> m)\<rparr>"

text \<open>\<open>graph.getState(config).values\<close>; \<open>None\<close> when the thread has no checkpoint.\<close>

definition getState :: "CompiledGraph \<Rightarrow> string \<Rightarrow> WorkflowState option" where
  "getState graph threadId = checkpointer graph threadId"

text \<open>
  \<open>graph.invoke(input, config)\<close> with a plain object as input starts at the entry node;
  \<open>s\<close> is the thread's values once the input has been written to them. The last
  checkpoint of the run holds the values that \<open>invoke\<close> returns.
\<close>

definition invoke :: "CompiledGraph \<Rightarrow> WorkflowState \<Rightarrow> string \<Rightarrow> RunResult \<times> CompiledGraph" where
  "invoke graph s threadId =
     (let r = run_from (graph_client graph) initialize s
      in (r, graph\<lparr>checkpointer := (checkpointer graph)(threadId \<mapsto> final_state r)\<rparr>))"

definition initialState :: "WorkflowInput \<Rightarrow> timestamp \<Rightarrow> WorkflowState" where
  "initialState inp now =
     \<lparr>input = inp, designContext = None, screenshot = None, userProvidedScreenshot = None,
      metadata = None, analysis = None, generatedFiles = None, validation = None,
      sectionModelUpdated = None, currentStep = INITIALIZED, awaitingUserInput = None,
      errors = [], startTime = now, endTime = None, duration = None\<rparr>"

definition runWorkflow :: "WorkflowInput \<Rightarrow> MCPClient \<Rightarrow> string \<Rightarrow> timestamp \<Rightarrow> RunResult" where
  "runWorkflow inp mcp threadId now =
     (let graph = createWorkflow mcp None
      in fst (invoke graph (initialState inp now) threadId))"

text \<open>
  \<open>resumeWorkflow\<close> compiles a graph of its own, with \<open>createWorkflow(mcpClient)\<close> and so
  with a new \<open>MemorySaver\<close>, and reads the thread's values from it. \<open>None\<close> is what
  \<open>getState\<close> gives for a thread without a checkpoint: values without any key, whose
  \<open>currentStep\<close> is \<open>undefined\<close>. The second component lists the nodes that were run.
\<close>

definition resumeWorkflow ::
  "UserInput \<Rightarrow> MCPClient \<Rightarrow> string \<Rightarrow> timestamp \<Rightarrow> WorkflowState option \<times> NodeName list" where
  "resumeWorkflow userInput mcp threadId now =
     (let graph = createWorkflow mcp None
      in case getState graph threadId of
           None \<Rightarrow> (None, [])
         | Some vals \<Rightarrow>
             if currentStep vals \<noteq> AWAITING_USER_INPUT then (Some vals, [])
             else
               (let updates = resumeWithUserInput vals userInput now;
                    r = fst (invoke graph (apply_update vals updates) threadId)
                in (Some (final_state r), executed r)))"

definition getWorkflowState :: "MCPClient \<Rightarrow> string \<Rightarrow> WorkflowState option" where
  "getWorkflowState mcp threadId = getState (createWorkflow mcp None) threadId"

section \<open>State persistence (persistence.ts, found in block-builder/src/chat-integration.ts)\<close>

text \<open>
  The object that a \<open>WorkflowState\<close> is at run time: a field that is \<open>None\<close> is a
  property that the object does not have (the \<open>error\<close> of a \<open>WorkflowError\<close> apart,
  which can also be there with the value \<open>undefined\<close>). A timestamp, an ISO string in the
  source, is given by its instant, and every number is an integer.
\<close>

definition opt_prop :: "string \<Rightarrow> js_value option \<Rightarrow> (string \<times> js_value) list" where
  "opt_prop k v = (case v of None \<Rightarrow> [] | Some x \<Rightarrow> [(k, x)])"

definition js_strings :: "string list \<Rightarrow> js_value" where
  "js_strings xs = JArray (map JString xs)"

definition js_of_step :: "WorkflowStep \<Rightarrow> js_value" where
  "js_of_step s = JString
     (case s of
        INITIALIZED \<Rightarrow> ''initialized''
      | EXTRACTING_DESIGN \<Rightarrow> ''extracting_design''
      | GETTING_SCREENSHOT \<Rightarrow> ''getting_screenshot''
      | AWAITING_USER_INPUT \<Rightarrow> ''awaiting_user_input''
      | GETTING_METADATA \<Rightarrow> ''getting_metadata''
      | ANALYZING \<Rightarrow> ''analyzing''
      | GENERATING \<Rightarrow> ''generating''
      | VALIDATING \<Rightarrow> ''validating''
      | UPDATING_SECTION_MODEL \<Rightarrow> ''updating_section_model''
      | COMPLETED \<Rightarrow> ''completed''
      | FAILED \<Rightarrow> ''failed'')"

definition js_of_options :: "WorkflowOptions \<Rightarrow> js_value" where
  "js_of_options opts = JObject
     [(''updateSectionModel'', JBoolean (updateSectionModel opts)),
      (''validateOutput'', JBoolean (validateOutput opts)),
      (''persistContext'', JBoolean (persistContext opts)),
      (''skipScreenshot'', JBoolean (skipScreenshot opts)),
      (''strictValidation'', JBoolean (strictValidation opts))]"

definition js_of_input :: "WorkflowInput \<Rightarrow> js_value" where
  "js_of_input i = JObject
     ([(''blockName'', JString (blockName i))]
      @ opt_prop ''figmaUrl'' (map_option JString (figmaUrl i))
      @ opt_prop ''figmaNodeId'' (map_option JString (figmaNodeId i))
      @ opt_prop ''figmaFileKey'' (map_option JString (figmaFileKey i))
      @ [(''outputPath'', JString (outputPath i))]
      @ opt_prop ''options'' (map_option js_of_options (options i)))"

definition js_of_designContext :: "DesignContext \<Rightarrow> js_value" where
  "js_of_designContext d = JObject
     ([(''generatedCode'', JString (generatedCode d)), (''nodeId'', JString (dc_nodeId d))]
      @ opt_prop ''fileName'' (map_option JString (fileName d))
      @ [(''timestamp'', JNumber (dc_timestamp d))])"

definition js_of_format :: "ImageFormat \<Rightarrow> js_value" where
  "js_of_format f = JString (case f of png \<Rightarrow> ''png'' | jpg \<Rightarrow> ''jpg'')"

definition js_of_screenshot :: "Screenshot \<Rightarrow> js_value" where
  "js_of_screenshot sh = JObject
     [(''data'', JString (ss_data sh)), (''format'', js_of_format (ss_format sh)),
      (''timestamp'', JNumber (ss_timestamp sh))]"

definition js_of_metadata :: "FigmaMetadata \<Rightarrow> js_value" where
  "js_of_metadata m = JObject
     [(''nodeId'', JString (md_nodeId m)), (''nodeName'', JString (nodeName m)),
      (''nodeType'', JString (nodeType m)), (''structure'', md_structure m),
      (''timestamp'', JNumber (md_timestamp m))]"

definition js_of_field :: "FieldSpec \<Rightarrow> js_value" where
  "js_of_field f = JObject
     [(''name'', JString (f_name f)), (''type'', JString (f_type f)),
      (''label'', JString (f_label f)), (''component'', JString (f_component f))]"

definition js_of_contentStructure :: "ContentStructure \<Rightarrow> js_value" where
  "js_of_contentStructure c = JObject
     ([(''containerFields'', JArray (map js_of_field (containerFields c)))]
      @ opt_prop ''itemFields'' (map_option (\<lambda>fs. JArray (map js_of_field fs)) (itemFields c)))"

definition js_of_designTokens :: "DesignTokens \<Rightarrow> js_value" where
  "js_of_designTokens t = JObject
     [(''colors'', js_strings (colors t)), (''typography'', js_strings (typography t)),
      (''spacing'', js_strings (spacing t))]"

definition js_of_analysis :: "BlockAnalysis \<Rightarrow> js_value" where
  "js_of_analysis a = JObject
     [(''blockName'', JString (ba_blockName a)),
      (''blockType'', JString (case blockType a of single \<Rightarrow> ''single'' | multi_item \<Rightarrow> ''multi-item'')),
      (''contentStructure'', js_of_contentStructure (contentStructure a)),
      (''designTokens'', js_of_designTokens (designTokens a)),
      (''interactiveElements'', js_strings (interactiveElements a)),
      (''timestamp'', JNumber (ba_timestamp a))]"

definition js_of_files :: "GeneratedFiles \<Rightarrow> js_value" where
  "js_of_files g = JObject
     ([(''css'', JString (css g)), (''javascript'', JString (javascript g)),
       (''model'', JString (model g))]
      @ opt_prop ''readme'' (map_option JString (readme g)))"

definition js_of_validation :: "ValidationResult \<Rightarrow> js_value" where
  "js_of_validation v = JObject
     [(''validated'', JBoolean (validated v)), (''errors'', js_strings (vr_errors v)),
      (''warnings'', js_strings (warnings v)),
      (''summary'', JObject
         [(''totalErrors'', JNumber (totalErrors (summary v))),
          (''totalWarnings'', JNumber (totalWarnings (summary v))),
          (''status'', JString (case status (summary v) of
                                  PASSED \<Rightarrow> ''PASSED'' | FAILED_STATUS \<Rightarrow> ''FAILED''))])]"

definition js_of_awaiting :: "AwaitingUserInput \<Rightarrow> js_value" where
  "js_of_awaiting a = JObject
     [(''requestedAt'', JNumber (requestedAt a)), (''promptMessage'', JString (promptMessage a)),
      (''inputType'', JString (case inputType a of
                                 screenshot_input \<Rightarrow> ''screenshot''
                               | confirmation_input \<Rightarrow> ''confirmation''
                               | text_input \<Rightarrow> ''text''))]"

definition js_of_error :: "WorkflowError \<Rightarrow> js_value" where
  "js_of_error e = JObject
     ([(''step'', js_of_step (step e)), (''message'', JString (message e))]
      @ (case we_error e of
           Missing \<Rightarrow> []
         | Undefined \<Rightarrow> [(''error'', JUndefined)]
         | Defined err \<Rightarrow> [(''error'', JErrorObject err)])
      @ [(''timestamp'', JNumber (we_timestamp e)), (''retryable'', JBoolean (retryable e))]
      @ opt_prop ''requiresUserInput'' (map_option JBoolean (requiresUserInput e))
      @ opt_prop ''userPrompt'' (map_option JString (userPrompt e)))"

definition js_of_state :: "WorkflowState \<Rightarrow> js_value" where
  "js_of_state s = JObject
     ([(''input'', js_of_input (input s))]
      @ opt_prop ''designContext'' (map_option js_of_designContext (designContext s))
      @ opt_prop ''screenshot'' (map_option js_of_screenshot (screenshot s))
      @ opt_prop ''userProvidedScreenshot'' (map_option JBoolean (userProvidedScreenshot s))
      @ opt_prop ''metadata'' (map_option js_of_metadata (metadata s))
      @ opt_prop ''analysis'' (map_option js_of_analysis (analysis s))
      @ opt_prop ''generatedFiles'' (map_option js_of_files (generatedFiles s))
      @ opt_prop ''validation'' (map_option js_of_validation (validation s))
      @ opt_prop ''sectionModelUpdated'' (map_option JBoolean (sectionModelUpdated s))
      @ [(''currentStep'', js_of_step (currentStep s))]
      @ opt_prop ''awaitingUserInput'' (map_option js_of_awaiting (awaitingUserInput s))
      @ [(''errors'', JArray (map js_of_error (errors s))),
         (''startTime'', JNumber (startTime s))]
      @ opt_prop ''endTime'' (map_option JNumber (endTime s))
      @ opt_prop ''duration'' (map_option JNumber (duration s)))"

record PersistenceConfig =
  stateDir :: string
  autoSave :: bool
  saveInterval :: int

definition DEFAULT_PERSISTENCE_CONFIG :: PersistenceConfig where
  "DEFAULT_PERSISTENCE_CONFIG =
     \<lparr>stateDir = ''./.tmp/block-builder-states'', autoSave = True, saveInterval = 5000\<rparr>"

text \<open>
  Node's \<open>path\<close> module, as far as \<open>StatePersistence\<close> uses it: both functions work on
  the text of a path.
\<close>

record NodePath =
  path_join :: "string \<Rightarrow> string \<Rightarrow> string"
  path_isAbsolute :: "string \<Rightarrow> bool"

text \<open>
  The disk behind \<open>fs.promises\<close>. \<open>locate\<close> is how the operating system finds the entry
  that a path text names: the names from the root directory down (it depends on the working
  directory of the process). \<open>files\<close> gives the document of each file that holds one,
  \<open>directories\<close> the directories that exist. A call that the file system rejects
  (\<open>ENOENT\<close>, \<open>ENOTDIR\<close>, \<open>EISDIR\<close> or \<open>EEXIST\<close>, which are not told apart) is
  \<open>Rejected\<close> with the path; permissions and failures of the device are left out.
\<close>

record Disk =
  locate :: "string \<Rightarrow> string list"
  files :: "string list \<rightharpoonup> json"
  directories :: "string list set"

datatype io_error = Rejected string | NotSerializable

text \<open>The directory itself and the directories above it, up to the root.\<close>

definition up_to_root :: "string list \<Rightarrow> string list list" where
  "up_to_root loc = map (\<lambda>n. take n loc) [0..<Suc (length loc)]"

text \<open>
  \<^verbatim>\<open>fs.mkdir(dir, { recursive: true })\<close> makes the directory and those above it that are not
  there yet; it rejects when a file is in the way.
\<close>

definition fs_mkdir_recursive :: "Disk \<Rightarrow> string \<Rightarrow> io_error + Disk" where
  "fs_mkdir_recursive disk dir =
     (if list_ex (\<lambda>d. files disk d \<noteq> None) (up_to_root (locate disk dir)) then Inl (Rejected dir)
      else Inr (disk\<lparr>directories := directories disk \<union> set (up_to_root (locate disk dir))\<rparr>))"

text \<open>
  \<^verbatim>\<open>fs.writeFile(file, text)\<close> makes or replaces the file; it makes no directory, and
  rejects when the directory of the file does not exist or the path names a directory.
\<close>

definition fs_writeFile :: "Disk \<Rightarrow> string \<Rightarrow> json \<Rightarrow> io_error + Disk" where
  "fs_writeFile disk file doc =
     (let loc = locate disk file
      in if loc \<in> directories disk \<or> butlast loc \<notin> directories disk \<or> loc = []
         then Inl (Rejected file)
         else Inr (disk\<lparr>files := (files disk)(loc \<mapsto> doc)\<rparr>))"

text \<open>\<^verbatim>\<open>fs.readFile(file, 'utf-8')\<close>: the file has to be there, and not be a directory.\<close>

definition fs_readFile :: "Disk \<Rightarrow> string \<Rightarrow> io_error + json" where
  "fs_readFile disk file =
     (let loc = locate disk file
      in if loc \<in> directories disk then Inl (Rejected file)
         else (case files disk loc of None \<Rightarrow> Inl (Rejected file) | Some doc \<Rightarrow> Inr doc))"

text \<open>\<^verbatim>\<open>new Date().toISOString().replace(/[:.]/g, '-')\<close>, from the ISO text of the clock.\<close>

definition file_stamp :: "string \<Rightarrow> string" where
  "file_stamp isoTime = map (\<lambda>c. if c = CHR '':'' \<or> c = CHR ''.'' then CHR ''-'' else c) isoTime"

text \<open>\<^verbatim>\<open>filename || `${state.input.blockName}-${timestamp}.json`\<close>\<close>

definition state_file_name :: "WorkflowState \<Rightarrow> string option \<Rightarrow> string \<Rightarrow> string" where
  "state_file_name st filename isoTime =
     or_else filename (blockName (input st) @ ''-'' @ file_stamp isoTime @ ''.json'')"

text \<open>
  \<open>saveState\<close> makes \<open>stateDir\<close>, and no other directory, then writes the file under the
  joined path and returns that path. \<open>JSON.stringify\<close> of a value that has no JSON text
  gives \<open>undefined\<close>, which \<open>writeFile\<close> does not take.
\<close>

definition saveState ::
  "PersistenceConfig \<Rightarrow> NodePath \<Rightarrow> Disk \<Rightarrow> WorkflowState \<Rightarrow> string option \<Rightarrow> string
   \<Rightarrow> io_error + Disk \<times> string" where
  "saveState config path disk st filename isoTime =
     (case fs_mkdir_recursive disk (stateDir config) of
        Inl e \<Rightarrow> Inl e
      | Inr disk1 \<Rightarrow>
          (let name = state_file_name st filename isoTime;
               filePath = path_join path (stateDir config) name
           in case JSON_stringify (js_of_state st) of
                None \<Rightarrow> Inl NotSerializable
              | Some doc \<Rightarrow>
                  (case fs_writeFile disk1 filePath doc of
                     Inl e \<Rightarrow> Inl e
                   | Inr disk2 \<Rightarrow> Inr (disk2, filePath))))"

text \<open>
  \<open>loadState\<close> reads an absolute name as it is and joins any other name to \<open>stateDir\<close>.
  A file that \<open>saveState\<close> wrote holds JSON, so \<open>JSON.parse\<close> does not throw on it.
\<close>

definition loadState ::
  "PersistenceConfig \<Rightarrow> NodePath \<Rightarrow> Disk \<Rightarrow> string \<Rightarrow> io_error + js_value" where
  "loadState config path disk filename =
     (let filePath = (if path_isAbsolute path filename then filename
                      else path_join path (stateDir config) filename)
      in case fs_readFile disk filePath of
           Inl e \<Rightarrow> Inl e
         | Inr doc \<Rightarrow> Inr (JSON_parse doc))"

text \<open>
  A state that JSON can represent: no error of its list has the key \<open>error\<close> (an
  \<open>Error\<close> object has no JSON text of its own, and a key that holds \<open>undefined\<close> is
  dropped), and the metadata structure, if there is one, is a value that JSON can represent.
\<close>

definition state_representable :: "WorkflowState \<Rightarrow> bool" where
  "state_representable st =
     (list_all (\<lambda>e. we_error e = Missing) (errors st)
      \<and> (case metadata st of None \<Rightarrow> True | Some m \<Rightarrow> json_representable (md_structure m)))"

text \<open>
  \<open>saveState\<close>, and at once \<open>loadState\<close> from the disk as \<open>saveState\<close> left it: of the
  name \<open>key\<close>, or of the path that \<open>saveState\<close> returned.
\<close>

definition saveState_then_loadState ::
  "PersistenceConfig \<Rightarrow> NodePath \<Rightarrow> Disk \<Rightarrow> WorkflowState \<Rightarrow> string option \<Rightarrow> string
   \<Rightarrow> string \<Rightarrow> io_error + js_value" where
  "saveState_then_loadState config path disk st filename isoTime key =
     (case saveState config path disk st filename isoTime of
        Inl e \<Rightarrow> Inl e
      | Inr (disk', filePath) \<Rightarrow> loadState config path disk' key)"

definition saveState_then_load_returned_path ::
  "PersistenceConfig \<Rightarrow> NodePath \<Rightarrow> Disk \<Rightarrow> WorkflowState \<Rightarrow> string option \<Rightarrow> string
   \<Rightarrow> io_error + js_value" where
  "saveState_then_load_returned_path config path disk st filename isoTime =
     (case saveState config path disk st filename isoTime of
        Inl e \<Rightarrow> Inl e
      | Inr (disk', filePath) \<Rightarrow> loadState config path disk' filePath)"

section \<open>Concrete scenarios\<close>

text \<open>Inputs, connector answers and clocks on which the statements below are evaluated.\<close>

definition tool_ok :: "'a \<Rightarrow> 'a MCPToolResult" where
  "tool_ok v = \<lparr>success = True, data = Some v, error = None\<rparr>"

definition tool_failed :: "string \<Rightarrow> 'a MCPToolResult" where
  "tool_failed msg = \<lparr>success = False, data = None, error = Some msg\<rparr>"

definition always_times_out :: "nat \<Rightarrow> thrown + unit" where
  "always_times_out k = Inl (ThrownError \<lparr>err_name = ''Error'', err_message = ''timeout''\<rparr>)"

definition unauthorized_error :: js_error where
  "unauthorized_error = \<lparr>err_name = ''Error'', err_message = ''unauthorized''\<rparr>"

definition always_unauthorized :: "nat \<Rightarrow> thrown + unit" where
  "always_unauthorized k = Inl (ThrownError unauthorized_error)"

text \<open>A function that throws \<open>unauthorized\<close> in its first invocation and resolves afterwards.\<close>

definition unauthorized_once :: "nat \<Rightarrow> thrown + unit" where
  "unauthorized_once k = (if k = 0 then Inl (ThrownError unauthorized_error) else Inr ())"

definition capped_config :: PartialRetryConfig where
  "capped_config =
     \<lparr>p_maxRetries = Some 2, p_initialDelay = Some 100, p_maxDelay = Some 150,
      p_backoffMultiplier = None\<rparr>"

definition inverted_config :: PartialRetryConfig where
  "inverted_config =
     \<lparr>p_maxRetries = Some 2, p_initialDelay = Some 1000, p_maxDelay = Some 500,
      p_backoffMultiplier = Some 2\<rparr>"

definition two_retries_config :: PartialRetryConfig where
  "two_retries_config =
     \<lparr>p_maxRetries = Some 2, p_initialDelay = None, p_maxDelay = None,
      p_backoffMultiplier = None\<rparr>"

definition failing_call :: "int \<Rightarrow> unit breaker_call" where
  "failing_call t = \<lparr>call_now = t, call_fn = Inl (ThrownError \<lparr>err_name = ''Error'', err_message = ''503''\<rparr>),
     call_failedAt = t\<rparr>"

definition succeeding_call :: "int \<Rightarrow> unit breaker_call" where
  "succeeding_call t = \<lparr>call_now = t, call_fn = Inr (), call_failedAt = t\<rparr>"

definition service_unavailable :: thrown where
  "service_unavailable = ThrownError \<lparr>err_name = ''Error'', err_message = ''503''\<rparr>"

definition tripped_breaker :: CircuitBreaker where
  "tripped_breaker =
     breaker (execute (breaker (execute (breaker (execute
       (new_CircuitBreaker (Some 3) (Some 30000))
       1000 (Inl service_unavailable :: thrown + unit) 1000))
       2000 (Inl service_unavailable :: thrown + unit) 2000))
       3000 (Inl service_unavailable :: thrown + unit) 3000)"

definition reopened_breaker :: CircuitBreaker where
  "reopened_breaker =
     breaker (execute tripped_breaker 40000 (Inl service_unavailable :: thrown + unit) 40001)"

definition sample_input :: WorkflowInput where
  "sample_input =
     \<lparr>blockName = ''x'', figmaUrl = None, figmaNodeId = Some ''R1'', figmaFileKey = None,
      outputPath = ''./blocks'', options = None\<rparr>"

definition sample_design :: DesignContext where
  "sample_design =
     \<lparr>generatedCode = ''<div/>'', dc_nodeId = ''R1'', fileName = None, dc_timestamp = 110\<rparr>"

definition sample_screenshot :: Screenshot where
  "sample_screenshot = \<lparr>ss_data = ''iVBOR'', ss_format = png, ss_timestamp = 120\<rparr>"

definition sample_analysis :: BlockAnalysis where
  "sample_analysis =
     \<lparr>ba_blockName = '''', blockType = single,
      contentStructure = \<lparr>containerFields = [], itemFields = None\<rparr>,
      designTokens = \<lparr>colors = [], typography = [], spacing = []\<rparr>,
      interactiveElements = [], ba_timestamp = 130\<rparr>"

definition sample_files :: GeneratedFiles where
  "sample_files =
     \<lparr>css = ''.x{}'', javascript = ''export default 1'', model = ''{}'', readme = None\<rparr>"

definition figma_ok :: FigmaMCPClient where
  "figma_ok =
     \<lparr>figma_getDesignContext = (\<lambda>n. tool_ok sample_design),
      figma_getScreenshot = (\<lambda>n. tool_ok sample_screenshot)\<rparr>"

definition figma_no_screenshot :: FigmaMCPClient where
  "figma_no_screenshot =
     \<lparr>figma_getDesignContext = (\<lambda>n. tool_ok sample_design),
      figma_getScreenshot = (\<lambda>n. tool_failed ''Tool disabled'')\<rparr>"

definition eds_unauthorized :: EDSGeneratorMCPClient where
  "eds_unauthorized =
     \<lparr>eds_analyzeBlockStructure = (\<lambda>code shot meta. tool_ok sample_analysis),
      eds_generateEdsBlock = (\<lambda>name path code opts. tool_failed ''unauthorized''),
      eds_validateBlockOutput = (\<lambda>path name strict. tool_failed ''validator down'')\<rparr>"

definition eds_no_validation :: EDSGeneratorMCPClient where
  "eds_no_validation =
     \<lparr>eds_analyzeBlockStructure = (\<lambda>code shot meta. tool_ok sample_analysis),
      eds_generateEdsBlock = (\<lambda>name path code opts. tool_ok sample_files),
      eds_validateBlockOutput = (\<lambda>path name strict. tool_failed ''validator down'')\<rparr>"

definition sample_clock :: "NodeName \<Rightarrow> timestamp" where
  "sample_clock n = 100 + 10 * (7 - int (node_rank n))"

definition mcp_with :: "FigmaMCPClient \<Rightarrow> EDSGeneratorMCPClient \<Rightarrow> MCPClient" where
  "mcp_with f e =
     \<lparr>figmaClient = f, edsClient = e, clock = sample_clock\<rparr>"

text \<open>
  The run of the specification's scenario: node id \<open>R1\<close>, the design context arrives, the
  screenshot call fails.
\<close>

definition suspended_run :: RunResult where
  "suspended_run =
     runWorkflow sample_input (mcp_with figma_no_screenshot eds_no_validation) ''t1'' 90"

text \<open>The same input when every call succeeds but the generation call, which answers \<open>unauthorized\<close>.\<close>

definition unauthorized_run :: RunResult where
  "unauthorized_run = runWorkflow sample_input (mcp_with figma_ok eds_unauthorized) ''t1'' 90"


text \<open>
  A path module and a disk in the manner of POSIX: \<open>join\<close> puts a slash between its
  arguments, a path is absolute when it starts with a slash, and a path is located from the
  root or from the working directory, name by name (\<open>.\<close> stays, \<open>..\<close> goes up).
\<close>

definition posix_path :: NodePath where
  "posix_path =
     \<lparr>path_join = (\<lambda>a b. a @ ''/'' @ b),
      path_isAbsolute = (\<lambda>p. case p of [] \<Rightarrow> False | c # cs \<Rightarrow> c = CHR ''/'')\<rparr>"

fun split_slash :: "string \<Rightarrow> string list" where
  "split_slash [] = [[]]"
| "split_slash (c # cs) =
     (if c = CHR ''/'' then [] # split_slash cs
      else (case split_slash cs of [] \<Rightarrow> [[c]] | name # names \<Rightarrow> (c # name) # names))"

definition posix_locate :: "string list \<Rightarrow> string \<Rightarrow> string list" where
  "posix_locate cwd p =
     foldl (\<lambda>loc name. if name = [] \<or> name = ''.'' then loc
                       else if name = ''..'' then butlast loc
                       else loc @ [name])
       (if path_isAbsolute posix_path p then [] else cwd) (split_slash p)"

text \<open>A disk without files, with the working directory \<open>/work\<close>.\<close>

definition empty_disk :: Disk where
  "empty_disk =
     \<lparr>locate = posix_locate [''work''], files = Map.empty,
      directories = {[], [''work'']}\<rparr>"

definition absolute_config :: PersistenceConfig where
  "absolute_config = \<lparr>stateDir = ''/var/states'', autoSave = True, saveInterval = 5000\<rparr>"

text \<open>
  A failed state whose error \<open>createWorkflowError\<close> built from an \<open>Error\<close>, and one whose
  error it built without.
\<close>

definition state_with_error_object :: WorkflowState where
  "state_with_error_object =
     (initialState sample_input 90)\<lparr>
        currentStep := FAILED,
        errors := [createWorkflowError GENERATING ''boom''
                     (Some \<lparr>err_name = ''Error'', err_message = ''boom''\<rparr>) None 95]\<rparr>"

definition state_with_undefined_error :: WorkflowState where
  "state_with_undefined_error =
     (initialState sample_input 90)\<lparr>
        currentStep := FAILED,
        errors := [createWorkflowError GENERATING ''boom'' None None 95]\<rparr>"

section \<open>Retry: attempts, delays and the last error\<close>

lemma retry_loop_past:
  "\<not> int attempt \<le> maxR \<Longrightarrow>
   retry_loop fn onR maxR maxD mult attempt delay lastE = \<lparr>events = [], outcome = Inl lastE\<rparr>"
  by (subst retry_loop.simps) simp

lemma retry_loop_fail_last:
  "int attempt = maxR \<Longrightarrow> fn attempt = Inl t \<Longrightarrow>
   retry_loop fn onR maxR maxD mult attempt delay lastE =
     \<lparr>events = [Invoke attempt], outcome = Inl (Some (toError t))\<rparr>"
  by (subst retry_loop.simps) (simp add: retry_loop_past)

lemma retry_loop_fail_more:
  "int attempt < maxR \<Longrightarrow> fn attempt = Inl t \<Longrightarrow>
   retry_loop fn onR maxR maxD mult attempt delay lastE =
     (let r = retry_loop fn onR maxR maxD mult (Suc attempt) (min (delay * mult) maxD)
                (Some (toError t))
      in r\<lparr>events := Invoke attempt #
             (if onR then [OnRetry (attempt + 1) (toError t)] else []) @ Sleep delay # events r\<rparr>)"
  by (subst retry_loop.simps) (simp add: Let_def)

lemma retry_loop_success:
  "int attempt \<le> maxR \<Longrightarrow> fn attempt = Inr v \<Longrightarrow>
   retry_loop fn onR maxR maxD mult attempt delay lastE =
     \<lparr>events = [Invoke attempt], outcome = Inr v\<rparr>"
  by (subst retry_loop.simps) simp

text \<open>
  The loop when every attempt that is left fails: \<open>n\<close> more retries are allowed after
  the current attempt.
\<close>

lemma retry_loop_all_fail:
  assumes fails: "\<And>k. int k \<le> maxR \<Longrightarrow> isl (fn k)"
  shows "int attempt + int n = maxR \<Longrightarrow>
     invoked (events (retry_loop fn onR maxR maxD mult attempt delay lastE))
       = [attempt..<attempt + Suc n]
   \<and> slept (events (retry_loop fn onR maxR maxD mult attempt delay lastE))
       = backoff_from mult maxD delay n
   \<and> outcome (retry_loop fn onR maxR maxD mult attempt delay lastE)
       = Inl (Some (toError (projl (fn (attempt + n)))))"
proof (induction n arbitrary: attempt delay lastE)
  case 0
  obtain t where t: "fn attempt = Inl t"
    using fails[of attempt] 0 by (cases "fn attempt") auto
  from 0 have "int attempt = maxR" by simp
  then show ?case using t by (simp add: retry_loop_fail_last[where t = t])
next
  case (Suc n)
  obtain t where t: "fn attempt = Inl t"
    using fails[of attempt] Suc.prems by (cases "fn attempt") auto
  have step: "int (Suc attempt) + int n = maxR" using Suc.prems by simp
  have lt: "int attempt < maxR" using Suc.prems by simp
  note IH = Suc.IH[OF step, of "min (delay * mult) maxD" "Some (toError t)"]
  let ?r = "retry_loop fn onR maxR maxD mult (Suc attempt) (min (delay * mult) maxD)
              (Some (toError t))"
  have unf: "retry_loop fn onR maxR maxD mult attempt delay lastE =
      ?r\<lparr>events := Invoke attempt #
             (if onR then [OnRetry (attempt + 1) (toError t)] else []) @ Sleep delay # events ?r\<rparr>"
    using retry_loop_fail_more[OF lt, where t = t and fn = fn] t by (simp add: Let_def)
  have upt: "[attempt..<attempt + Suc (Suc n)] = attempt # [Suc attempt..<Suc attempt + Suc n]"
    by (simp add: upt_conv_Cons del: upt_Suc)
  show ?case
    unfolding unf upt using IH by (cases onR) simp_all
qed

text \<open>
  The loop while the attempts fail: \<open>n\<close> failed attempts that are retried leave \<open>n\<close>
  rounds in the trace, and the loop goes on from attempt \<open>attempt + n\<close> with the delay of
  that index.
\<close>

lemma retry_loop_rounds:
  assumes fails: "\<And>j. attempt \<le> j \<Longrightarrow> j < attempt + n \<Longrightarrow> isl (fn j)"
    and room: "int attempt + int n \<le> maxRetries c"
  shows "\<exists>lastE'.
     events (retry_loop fn onR (maxRetries c) (maxDelay c) (backoffMultiplier c) attempt
               (delay_seq c attempt) lastE)
       = concat (map (backoff_round c onR fn) [attempt..<attempt + n]) @
         events (retry_loop fn onR (maxRetries c) (maxDelay c) (backoffMultiplier c) (attempt + n)
                   (delay_seq c (attempt + n)) lastE')
   \<and> outcome (retry_loop fn onR (maxRetries c) (maxDelay c) (backoffMultiplier c) attempt
               (delay_seq c attempt) lastE)
       = outcome (retry_loop fn onR (maxRetries c) (maxDelay c) (backoffMultiplier c) (attempt + n)
                   (delay_seq c (attempt + n)) lastE')"
  using fails room
proof (induction n arbitrary: attempt lastE)
  case 0
  show ?case by (rule exI[of _ lastE]) simp
next
  case (Suc n)
  obtain t where t: "fn attempt = Inl t"
    using Suc.prems(1)[of attempt] by (cases "fn attempt") auto
  have lt: "int attempt < maxRetries c" using Suc.prems(2) by simp
  have room': "int (Suc attempt) + int n \<le> maxRetries c" using Suc.prems(2) by simp
  have fails': "\<And>j. Suc attempt \<le> j \<Longrightarrow> j < Suc attempt + n \<Longrightarrow> isl (fn j)"
    using Suc.prems(1) by simp
  from Suc.IH[OF fails' room', of "Some (toError t)"]
  obtain lastE' where IH:
    "events (retry_loop fn onR (maxRetries c) (maxDelay c) (backoffMultiplier c) (Suc attempt)
               (delay_seq c (Suc attempt)) (Some (toError t)))
       = concat (map (backoff_round c onR fn) [Suc attempt..<Suc attempt + n]) @
         events (retry_loop fn onR (maxRetries c) (maxDelay c) (backoffMultiplier c) (Suc attempt + n)
                   (delay_seq c (Suc attempt + n)) lastE')"
    "outcome (retry_loop fn onR (maxRetries c) (maxDelay c) (backoffMultiplier c) (Suc attempt)
               (delay_seq c (Suc attempt)) (Some (toError t)))
       = outcome (retry_loop fn onR (maxRetries c) (maxDelay c) (backoffMultiplier c) (Suc attempt + n)
                   (delay_seq c (Suc attempt + n)) lastE')"
    by blast
  let ?r = "retry_loop fn onR (maxRetries c) (maxDelay c) (backoffMultiplier c) (Suc attempt)
              (delay_seq c (Suc attempt)) (Some (toError t))"
  have unf: "retry_loop fn onR (maxRetries c) (maxDelay c) (backoffMultiplier c) attempt
               (delay_seq c attempt) lastE =
      ?r\<lparr>events := Invoke attempt #
             (if onR then [OnRetry (attempt + 1) (toError t)] else []) @
             Sleep (delay_seq c attempt) # events ?r\<rparr>"
    using retry_loop_fail_more[OF lt, where t = t and fn = fn] t by (simp add: Let_def)
  have upt: "[attempt..<attempt + Suc n] = attempt # [Suc attempt..<Suc attempt + n]"
    by (simp add: upt_conv_Cons del: upt_Suc)
  have rnd: "backoff_round c onR fn attempt =
      Invoke attempt # (if onR then [OnRetry (attempt + 1) (toError t)] else []) @
      [Sleep (delay_seq c attempt)]"
    using t by (simp add: backoff_round_def)
  show ?case
    apply (rule exI[of _ lastE'])
    unfolding unf upt using IH rnd by (simp del: upt_Suc)
qed

text \<open>An attempt that is within \<open>maxRetries\<close> is made.\<close>

lemma retry_loop_starts:
  "int attempt \<le> maxR \<Longrightarrow>
   \<exists>rest. events (retry_loop fn onR maxR maxD mult attempt delay lastE) = Invoke attempt # rest"
  by (subst retry_loop.simps) (simp add: Let_def split: sum.splits)

lemma backoff_from_delay_seq:
  "backoff_from (backoffMultiplier c) (maxDelay c) (delay_seq c k) n = map (delay_seq c) [k..<k + n]"
proof (induction n arbitrary: k)
  case 0
  show ?case by simp
next
  case (Suc n)
  have "[k..<k + Suc n] = k # [Suc k..<Suc k + n]"
    by (simp add: upt_conv_Cons del: upt_Suc)
  then show ?case using Suc.IH[of "Suc k"] by simp
qed

lemma backoff_from_bounds:
  "1 \<le> mult \<Longrightarrow> 0 \<le> d \<Longrightarrow> d \<le> maxD \<Longrightarrow>
   x \<in> set (backoff_from mult maxD d n) \<Longrightarrow> d \<le> x \<and> x \<le> maxD"
proof (induction n arbitrary: d)
  case 0
  then show ?case by simp
next
  case (Suc n)
  have grow: "d \<le> d * mult" using Suc.prems(1,2) by (simp add: mult_le_cancel_left1)
  let ?d' = "min (d * mult) maxD"
  have d': "0 \<le> ?d'" "?d' \<le> maxD" "d \<le> ?d'" using grow Suc.prems(2,3) by auto
  from Suc.prems(4) consider "x = d" | "x \<in> set (backoff_from mult maxD ?d' n)" by auto
  then show ?case
  proof cases
    case 1
    then show ?thesis using Suc.prems(3) by simp
  next
    case 2
    from Suc.IH[OF Suc.prems(1) d'(1) d'(2) 2] d'(3) show ?thesis by linarith
  qed
qed

lemma backoff_from_sorted:
  "1 \<le> mult \<Longrightarrow> 0 \<le> d \<Longrightarrow> d \<le> maxD \<Longrightarrow> sorted (backoff_from mult maxD d n)"
proof (induction n arbitrary: d)
  case 0
  show ?case by simp
next
  case (Suc n)
  have grow: "d \<le> d * mult" using Suc.prems(1,2) by (simp add: mult_le_cancel_left1)
  let ?d' = "min (d * mult) maxD"
  have d': "0 \<le> ?d'" "?d' \<le> maxD" "d \<le> ?d'" using grow Suc.prems(2,3) by auto
  have "\<forall>x\<in>set (backoff_from mult maxD ?d' n). d \<le> x"
    using backoff_from_bounds[OF Suc.prems(1) d'(1) d'(2)] d'(3) by fastforce
  then show ?case using Suc.IH[OF Suc.prems(1) d'(1) d'(2)] by simp
qed

text \<open>
  C4, as the code has it. With \<open>maxRetries = N \<ge> 0\<close> and a wrapped function that fails in
  every attempt, the trace of \<open>retryWithBackoff\<close> is: attempt 0, sleep of \<open>delay_0\<close>,
  attempt 1, sleep of \<open>delay_1\<close>, ..., sleep of \<open>delay_{N-1}\<close>, attempt \<open>N\<close>, and
  nothing more (each sleep preceded by the \<open>onRetry\<close> callback when there is one). So the
  function is invoked in the attempts \<open>0, ..., N\<close> (\<open>N + 1\<close> invocations), each sleep
  lies between two consecutive attempts, the sleeps are \<open>delay_0, ..., delay_{N-1}\<close> where
  \<open>delay_0 = initialDelay\<close> and \<open>delay_{n+1} = min(delay_n * backoffMultiplier, maxDelay)\<close>,
  and the call throws the error of the last attempt (wrapped in an \<open>Error\<close> if the thrown
  value was not one). The sleeps are non-decreasing and never exceed \<open>maxDelay\<close> when
  \<open>backoffMultiplier \<ge> 1\<close> and \<open>0 \<le> initialDelay \<le> maxDelay\<close>; the first sleep is
  \<open>initialDelay\<close> itself, which the code does not cap.
\<close>

theorem retryWithBackoff_all_attempts_fail:
  fixes fn :: "nat \<Rightarrow> thrown + 'a"
  assumes N: "0 \<le> maxRetries (resolveConfig config)"
    and fails: "\<forall>k. int k \<le> maxRetries (resolveConfig config) \<longrightarrow> isl (fn k)"
  shows "(let c = resolveConfig config; N = nat (maxRetries c);
              r = retryWithBackoff fn config onRetry
          in events r = concat (map (backoff_round c onRetry fn) [0..<N]) @ [Invoke N]
           \<and> invoked (events r) = [0..<N + 1]
           \<and> slept (events r) = map (delay_seq c) [0..<N]
           \<and> outcome r = Inl (Some (toError (projl (fn N))))
           \<and> (1 \<le> backoffMultiplier c \<and> 0 \<le> initialDelay c \<and> initialDelay c \<le> maxDelay c
                \<longrightarrow> sorted (slept (events r)) \<and> (\<forall>d\<in>set (slept (events r)). d \<le> maxDelay c)))"
proof -
  let ?c = "resolveConfig config"
  let ?N = "nat (maxRetries ?c)"
  let ?r = "retry_loop fn onRetry (maxRetries ?c) (maxDelay ?c) (backoffMultiplier ?c) 0
              (initialDelay ?c) None"
  have r: "retryWithBackoff fn config onRetry = ?r" by (simp add: retryWithBackoff_def Let_def)
  have start: "int 0 + int ?N = maxRetries ?c" using N by simp
  have all: "invoked (events ?r) = [0..<0 + Suc ?N]
     \<and> slept (events ?r) = backoff_from (backoffMultiplier ?c) (maxDelay ?c) (initialDelay ?c) ?N
     \<and> outcome ?r = Inl (Some (toError (projl (fn (0 + ?N)))))"
    using fails by (intro retry_loop_all_fail[OF _ start]) simp
  have seq: "backoff_from (backoffMultiplier ?c) (maxDelay ?c) (initialDelay ?c) ?N
      = map (delay_seq ?c) [0..<?N]"
    using backoff_from_delay_seq[of ?c 0 ?N] by simp
  have mono: "sorted (slept (events ?r)) \<and> (\<forall>d\<in>set (slept (events ?r)). d \<le> maxDelay ?c)"
    if "1 \<le> backoffMultiplier ?c" "0 \<le> initialDelay ?c" "initialDelay ?c \<le> maxDelay ?c"
    using all backoff_from_sorted[OF that] backoff_from_bounds[OF that] by auto
  obtain t where t: "fn ?N = Inl t"
    using fails[rule_format, of ?N] N by (cases "fn ?N") auto
  have "int 0 + int ?N \<le> maxRetries ?c" using N by simp
  from retry_loop_rounds[of 0 ?N fn ?c onRetry None, OF _ this]
  obtain lastE' where
    "events ?r = concat (map (backoff_round ?c onRetry fn) [0..<?N]) @
         events (retry_loop fn onRetry (maxRetries ?c) (maxDelay ?c) (backoffMultiplier ?c) ?N
                   (delay_seq ?c ?N) lastE')"
    using fails N by auto
  moreover have "int ?N = maxRetries ?c" using N by simp
  ultimately have trace:
    "events ?r = concat (map (backoff_round ?c onRetry fn) [0..<?N]) @ [Invoke ?N]"
    using retry_loop_fail_last[where t = t and fn = fn and attempt = ?N] t by simp
  show ?thesis
    unfolding Let_def r using all seq mono trace by simp
qed

theorem retryWithBackoff_all_attempts_fail_witness:
  "events (retryWithBackoff always_times_out capped_config False)
       = [Invoke 0, Sleep 100, Invoke 1, Sleep 150, Invoke 2]
   \<and> invoked (events (retryWithBackoff always_times_out capped_config False)) = [0, 1, 2]
   \<and> slept (events (retryWithBackoff always_times_out capped_config False)) = [100, 150]
   \<and> outcome (retryWithBackoff always_times_out capped_config False)
       = Inl (Some \<lparr>err_name = ''Error'', err_message = ''timeout''\<rparr>)
   \<and> sorted (slept (events (retryWithBackoff always_times_out capped_config False)))"
proof -
  have c: "resolveConfig capped_config =
      \<lparr>maxRetries = 2, initialDelay = 100, maxDelay = 150, backoffMultiplier = 2\<rparr>"
    by (simp add: resolveConfig_def capped_config_def DEFAULT_RETRY_CONFIG_def)
  have N: "0 \<le> maxRetries (resolveConfig capped_config)"
    by (simp add: c)
  have fails: "\<forall>k. int k \<le> maxRetries (resolveConfig capped_config) \<longrightarrow> isl (always_times_out k)"
    by (simp add: always_times_out_def)
  have two: "[0..<2] = [0, Suc 0]" by (simp add: upt_rec)
  have three: "[0..<3] = [0, 1, 2]" by (simp add: upt_rec)
  have last: "toError (projl (always_times_out 2)) = \<lparr>err_name = ''Error'', err_message = ''timeout''\<rparr>"
    by (simp add: always_times_out_def toError_def)
  from retryWithBackoff_all_attempts_fail[OF N fails, of False]
  show ?thesis
    unfolding Let_def c by (simp add: two three last backoff_round_def)
qed

text \<open>
  C4 as it is written does not hold: with \<open>initialDelay = 1000\<close>, \<open>maxDelay = 500\<close> and
  \<open>backoffMultiplier = 2\<close> the sleeps are 1000 ms, then 500 ms. The first exceeds
  \<open>maxDelay\<close> and the sequence decreases.
\<close>

theorem retryWithBackoff_delay_counterexample:
  "slept (events (retryWithBackoff always_times_out inverted_config False)) = [1000, 500]
   \<and> maxDelay (resolveConfig inverted_config) = 500
   \<and> backoffMultiplier (resolveConfig inverted_config) = 2"
  by (simp add: retryWithBackoff_def resolveConfig_def inverted_config_def always_times_out_def
      retry_loop.simps)

section \<open>Retry: the error classifier\<close>

text \<open>
  C5, as the code has it. \<open>retryWithBackoff\<close> takes no classifier and does not consult
  \<open>isRetryableError\<close>: whatever the wrapped function throws, and however the classifier
  would class it, a failed attempt is retried while attempts remain. If the attempts
  \<open>0, ..., k\<close> fail and \<open>k < maxRetries\<close>, the trace begins with attempt 0, sleep of
  \<open>delay_0\<close>, ..., attempt \<open>k\<close>, sleep of \<open>delay_k\<close>, attempt \<open>k + 1\<close>: the failed
  attempt \<open>k\<close> is followed by its backoff sleep and by a further attempt, whatever that
  attempt and the later ones do.
\<close>

theorem retryWithBackoff_retries_every_error:
  fixes fn :: "nat \<Rightarrow> thrown + 'a"
  assumes k: "int k < maxRetries (resolveConfig config)"
    and fails: "\<forall>j\<le>k. isl (fn j)"
  shows "\<exists>rest. events (retryWithBackoff fn config onRetry)
           = concat (map (backoff_round (resolveConfig config) onRetry fn) [0..<k + 1]) @
             Invoke (k + 1) # rest"
proof -
  let ?c = "resolveConfig config"
  let ?r = "retry_loop fn onRetry (maxRetries ?c) (maxDelay ?c) (backoffMultiplier ?c) 0
              (initialDelay ?c) None"
  have r: "retryWithBackoff fn config onRetry = ?r" by (simp add: retryWithBackoff_def Let_def)
  have room: "int 0 + int (Suc k) \<le> maxRetries ?c" using k by simp
  from retry_loop_rounds[of 0 "Suc k" fn ?c onRetry None, OF _ room]
  obtain lastE' where ev:
    "events ?r = concat (map (backoff_round ?c onRetry fn) [0..<Suc k]) @
         events (retry_loop fn onRetry (maxRetries ?c) (maxDelay ?c) (backoffMultiplier ?c) (Suc k)
                   (delay_seq ?c (Suc k)) lastE')"
    using fails by auto
  have "int (Suc k) \<le> maxRetries ?c" using k by simp
  from retry_loop_starts[OF this] obtain rest where
    "events (retry_loop fn onRetry (maxRetries ?c) (maxDelay ?c) (backoffMultiplier ?c) (Suc k)
                   (delay_seq ?c (Suc k)) lastE') = Invoke (Suc k) # rest"
    by blast
  with ev show ?thesis unfolding r by simp
qed

lemma not_retryable_unauthorized: "\<not> isRetryableError unauthorized_error"
  by (simp add: isRetryableError_def unauthorized_error_def retryablePatterns_def pattern_test_def
      toLowerCase_def toLowerAscii_def)

text \<open>
  An error that the classifier calls permanent, in the first attempt, is retried after the
  first delay (the second attempt resolves).
\<close>

theorem retryWithBackoff_retries_every_error_witness:
  "unauthorized_once 0 = Inl (ThrownError unauthorized_error)
   \<and> \<not> isRetryableError unauthorized_error
   \<and> (\<exists>rest. events (retryWithBackoff unauthorized_once two_retries_config False)
           = [Invoke 0, Sleep 1000, Invoke 1] @ rest)"
proof -
  have c: "resolveConfig two_retries_config =
      \<lparr>maxRetries = 2, initialDelay = 1000, maxDelay = 10000, backoffMultiplier = 2\<rparr>"
    by (simp add: resolveConfig_def two_retries_config_def DEFAULT_RETRY_CONFIG_def)
  have k: "int 0 < maxRetries (resolveConfig two_retries_config)"
    by (simp add: c)
  have fails: "\<forall>j\<le>0. isl (unauthorized_once j)"
    by (simp add: unauthorized_once_def)
  from retryWithBackoff_retries_every_error[OF k fails, of False]
  have "\<exists>rest. events (retryWithBackoff unauthorized_once two_retries_config False)
           = [Invoke 0, Sleep 1000, Invoke 1] @ rest"
    unfolding c by (simp add: backoff_round_def)
  then show ?thesis
    using not_retryable_unauthorized by (simp add: unauthorized_once_def)
qed

text \<open>The whole of that call: the second attempt resolves, and the call with it.\<close>

lemma unauthorized_once_trace:
  "events (retryWithBackoff unauthorized_once two_retries_config False)
     = [Invoke 0, Sleep 1000, Invoke 1]
   \<and> outcome (retryWithBackoff unauthorized_once two_retries_config False) = Inr ()"
  by (simp add: retryWithBackoff_def resolveConfig_def two_retries_config_def
      DEFAULT_RETRY_CONFIG_def unauthorized_once_def toError_def retry_loop.simps)

text \<open>
  C5 as it is written does not hold: an \<open>Error\<close> with the message \<open>unauthorized\<close> is
  not retryable for the classifier, and a function that always throws it is attempted three
  times under \<open>maxRetries = 2\<close>, with sleeps of 1000 ms and 2000 ms.
\<close>

theorem retryWithBackoff_classifier_counterexample:
  "\<not> isRetryableError unauthorized_error
   \<and> events (retryWithBackoff always_unauthorized two_retries_config False)
       = [Invoke 0, Sleep 1000, Invoke 1, Sleep 2000, Invoke 2]
   \<and> outcome (retryWithBackoff always_unauthorized two_retries_config False)
       = Inl (Some unauthorized_error)"
  by (simp add: isRetryableError_def unauthorized_error_def retryablePatterns_def pattern_test_def
      toLowerCase_def toLowerAscii_def
      retryWithBackoff_def resolveConfig_def two_retries_config_def DEFAULT_RETRY_CONFIG_def
      always_unauthorized_def toError_def retry_loop.simps)

section \<open>Circuit breaker: threshold 3\<close>

lemma execute_closed_success:
  "cb_state cb = Closed \<Longrightarrow>
   execute cb now (Inr v) t = \<lparr>breaker = cb, result = Inr v, attempted = True\<rparr>"
  by (simp add: execute_def)

lemma execute_closed_failure:
  "cb_state cb = Closed \<Longrightarrow>
   execute cb now (Inl e) t =
     \<lparr>breaker = (if threshold cb \<le> failures cb + 1
                 then cb\<lparr>failures := failures cb + 1, lastFailureTime := Some t, cb_state := Open\<rparr>
                 else cb\<lparr>failures := failures cb + 1, lastFailureTime := Some t\<rparr>),
      result = Inl e, attempted = True\<rparr>"
  by (simp add: execute_def Let_def)

lemma execute_open_rejects:
  "cb_state cb = Open \<Longrightarrow> lastFailureTime cb = Some t \<Longrightarrow> now - t \<le> resetTimeout cb \<Longrightarrow>
   execute cb now fn t' =
     \<lparr>breaker = cb, result = Inl (ThrownError breaker_open_error), attempted = False\<rparr>"
  by (simp add: execute_def)

lemma execute_open_trial:
  "cb_state cb = Open \<Longrightarrow> lastFailureTime cb = Some t \<Longrightarrow> t \<noteq> 0 \<Longrightarrow>
   resetTimeout cb < now - t \<Longrightarrow>
   execute cb now fn t' =
     (case fn of
        Inr v \<Rightarrow> \<lparr>breaker = cb\<lparr>cb_state := Closed, failures := 0\<rparr>, result = Inr v,
                  attempted = True\<rparr>
      | Inl e \<Rightarrow>
          \<lparr>breaker = (if threshold cb \<le> failures cb + 1
                      then cb\<lparr>cb_state := Open, failures := failures cb + 1,
                             lastFailureTime := Some t'\<rparr>
                      else cb\<lparr>cb_state := HalfOpen, failures := failures cb + 1,
                             lastFailureTime := Some t'\<rparr>),
           result = Inl e, attempted = True\<rparr>)"
  by (cases fn) (simp_all add: execute_def Let_def)

lemma three_failures:
  fixes e1 e2 e3 :: thrown
  shows "breaker (execute (breaker (execute (breaker (execute (new_CircuitBreaker (Some 3) rst)
            n1 (Inl e1 :: thrown + 'a) t1)) n2 (Inl e2 :: thrown + 'a) t2)) n3 (Inl e3 :: thrown + 'a) t3)
     = (new_CircuitBreaker (Some 3) rst)\<lparr>failures := 3, lastFailureTime := Some t3, cb_state := Open\<rparr>"
  by (simp add: execute_closed_failure new_CircuitBreaker_def)

text \<open>
  C6. A fresh breaker with \<open>threshold = 3\<close> takes three failed calls (at any times, with any
  errors). Then it is open. A fourth call while no more than \<open>resetTimeout\<close> has passed
  since the third failure is rejected with the breaker's own error, the wrapped function is
  not invoked and the breaker is unchanged. A call after more than \<open>resetTimeout\<close> has
  passed invokes the wrapped function once, as the half-open trial: if the trial succeeds
  the breaker is closed with \<open>failures = 0\<close>; if it fails the breaker is open again with
  \<open>lastFailureTime\<close> set to the time of that failure, and a call within \<open>resetTimeout\<close> of
  it is rejected in turn. The times are readings of \<open>Date.now()\<close>, milliseconds since 1970:
  the reading at the third failure is not \<open>0\<close> (the code's test \<open>this.lastFailureTime &&\<close>
  would take a reading of \<open>0\<close> for no failure at all).
\<close>

theorem breaker_threshold_three:
  fixes e1 e2 e3 :: thrown and trial fn4 fn5 :: "thrown + 'a"
  assumes clock: "t3 \<noteq> 0"
  shows "(let b0 = new_CircuitBreaker (Some 3) rst;
              b1 = breaker (execute b0 n1 (Inl e1 :: thrown + 'a) t1);
              b2 = breaker (execute b1 n2 (Inl e2 :: thrown + 'a) t2);
              b3 = breaker (execute b2 n3 (Inl e3 :: thrown + 'a) t3)
          in cb_state b3 = Open
           \<and> (now4 - t3 \<le> resetTimeout b3 \<longrightarrow>
                execute b3 now4 fn4 at4 =
                  \<lparr>breaker = b3, result = Inl (ThrownError breaker_open_error), attempted = False\<rparr>)
           \<and> (resetTimeout b3 < nowT - t3 \<longrightarrow>
                (let r = execute b3 nowT trial tT
                 in attempted r \<and> result r = trial
                  \<and> (case trial of
                        Inr v \<Rightarrow> cb_state (breaker r) = Closed \<and> failures (breaker r) = 0
                      | Inl e \<Rightarrow>
                          cb_state (breaker r) = Open \<and> lastFailureTime (breaker r) = Some tT
                        \<and> (now5 - tT \<le> resetTimeout b3 \<longrightarrow>
                             \<not> attempted (execute (breaker r) now5 fn5 at5))))))"
proof -
  let ?b3 = "(new_CircuitBreaker (Some 3) rst)\<lparr>failures := 3, lastFailureTime := Some t3,
               cb_state := Open\<rparr>"
  have st: "cb_state ?b3 = Open" "lastFailureTime ?b3 = Some t3" by simp_all
  have rej: "execute ?b3 now4 fn4 at4 =
      \<lparr>breaker = ?b3, result = Inl (ThrownError breaker_open_error), attempted = False\<rparr>"
    if "now4 - t3 \<le> resetTimeout ?b3"
    using execute_open_rejects[OF st that] .
  have trial: "execute ?b3 nowT trial tT =
      (case trial of
        Inr v \<Rightarrow> \<lparr>breaker = ?b3\<lparr>cb_state := Closed, failures := 0\<rparr>, result = Inr v,
                  attempted = True\<rparr>
      | Inl e \<Rightarrow>
          \<lparr>breaker = ?b3\<lparr>cb_state := Open, failures := 4, lastFailureTime := Some tT\<rparr>,
           result = Inl e, attempted = True\<rparr>)"
    if "resetTimeout ?b3 < nowT - t3"
    using execute_open_trial[OF st clock that, of trial tT]
    by (simp add: new_CircuitBreaker_def split: sum.splits)
  have again: "\<not> attempted (execute (?b3\<lparr>cb_state := Open, failures := 4, lastFailureTime := Some tT\<rparr>)
      now5 fn5 at5)"
    if "now5 - tT \<le> resetTimeout ?b3"
    using that by (subst execute_open_rejects[where t = tT]) simp_all
  show ?thesis
    unfolding Let_def three_failures
    using rej trial again by (auto split: sum.splits)
qed


theorem breaker_threshold_three_witness:
  "cb_state tripped_breaker = Open
   \<and> \<not> attempted (execute tripped_breaker 4000 (Inr ()) 4000)
   \<and> attempted (execute tripped_breaker 40000 (Inr ()) 40000)
   \<and> cb_state (breaker (execute tripped_breaker 40000 (Inr ()) 40000)) = Closed
   \<and> failures (breaker (execute tripped_breaker 40000 (Inr ()) 40000)) = 0
   \<and> cb_state reopened_breaker = Open
   \<and> lastFailureTime reopened_breaker = Some 40001
   \<and> \<not> attempted (execute reopened_breaker 50000 (Inr ()) 50000)"
proof -
  have clock: "(3000::int) \<noteq> 0" by simp
  have rt: "resetTimeout tripped_breaker = 30000"
    by (simp add: tripped_breaker_def execute_def new_CircuitBreaker_def)
  note ok = breaker_threshold_three[OF clock, where rst = "Some 30000"
      and ?n1.0 = 1000 and ?e1.0 = service_unavailable and ?t1.0 = 1000
      and ?n2.0 = 2000 and ?e2.0 = service_unavailable and ?t2.0 = 2000
      and ?n3.0 = 3000 and ?e3.0 = service_unavailable
      and ?now4.0 = 4000 and ?fn4.0 = "Inr ()" and ?at4.0 = 4000
      and nowT = 40000 and trial = "Inr ()" and tT = 40000
      and ?now5.0 = 50000 and ?fn5.0 = "Inr ()" and ?at5.0 = 50000,
      unfolded Let_def, folded tripped_breaker_def]
  note ko = breaker_threshold_three[OF clock, where rst = "Some 30000"
      and ?n1.0 = 1000 and ?e1.0 = service_unavailable and ?t1.0 = 1000
      and ?n2.0 = 2000 and ?e2.0 = service_unavailable and ?t2.0 = 2000
      and ?n3.0 = 3000 and ?e3.0 = service_unavailable
      and ?now4.0 = 4000 and ?fn4.0 = "Inr ()" and ?at4.0 = 4000
      and nowT = 40000 and trial = "Inl service_unavailable" and tT = 40001
      and ?now5.0 = 50000 and ?fn5.0 = "Inr ()" and ?at5.0 = 50000,
      unfolded Let_def, folded tripped_breaker_def, folded reopened_breaker_def]
  from ok ko show ?thesis by (simp add: rt)
qed

section \<open>Circuit breaker: what opens it\<close>

lemma execute_all_Cons:
  "fst (execute_all cb (c # cs)) =
     fst (execute_all (breaker (execute cb (call_now c) (call_fn c) (call_failedAt c))) cs)"
  "snd (execute_all cb (c # cs)) =
     execute cb (call_now c) (call_fn c) (call_failedAt c)
     # snd (execute_all (breaker (execute cb (call_now c) (call_fn c) (call_failedAt c))) cs)"
  by (simp_all add: Let_def split: prod.splits)

lemma execute_all_closed:
  "cb_state cb = Closed \<Longrightarrow> failures cb + int (failed_calls cs) < threshold cb \<Longrightarrow>
   cb_state (fst (execute_all cb cs)) = Closed
   \<and> failures (fst (execute_all cb cs)) = failures cb + int (failed_calls cs)
   \<and> threshold (fst (execute_all cb cs)) = threshold cb
   \<and> list_all attempted (snd (execute_all cb cs))"
proof (induction cs arbitrary: cb)
  case Nil
  then show ?case by (simp add: failed_calls_def)
next
  case (Cons c cs)
  show ?case
  proof (cases "call_fn c")
    case (Inr v)
    have ex: "execute cb (call_now c) (call_fn c) (call_failedAt c)
        = \<lparr>breaker = cb, result = Inr v, attempted = True\<rparr>"
      using Inr Cons.prems(1) by (simp add: execute_closed_success)
    have "failures cb + int (failed_calls cs) < threshold cb"
      using Cons.prems(2) Inr by (simp add: failed_calls_def)
    from Cons.IH[OF Cons.prems(1) this] show ?thesis
      using ex Inr by (simp add: failed_calls_def execute_all_Cons del: execute_all.simps)
  next
    case (Inl e)
    let ?cb' = "cb\<lparr>failures := failures cb + 1, lastFailureTime := Some (call_failedAt c)\<rparr>"
    have below: "\<not> threshold cb \<le> failures cb + 1"
      using Cons.prems(2) Inl by (simp add: failed_calls_def)
    have ex: "execute cb (call_now c) (call_fn c) (call_failedAt c)
        = \<lparr>breaker = ?cb', result = Inl e, attempted = True\<rparr>"
      using Inl Cons.prems(1) below by (simp add: execute_closed_failure)
    have st: "cb_state ?cb' = Closed" using Cons.prems(1) by simp
    have "failures ?cb' + int (failed_calls cs) < threshold ?cb'"
      using Cons.prems(2) Inl by (simp add: failed_calls_def)
    from Cons.IH[OF st this] show ?thesis
      using ex Inl by (simp add: failed_calls_def execute_all_Cons del: execute_all.simps)
  qed
qed

text \<open>
  C7, as the code has it. \<open>failures\<close> counts every failed call: a success while the
  breaker is closed leaves the counter as it is (only a successful half-open trial and
  \<open>reset\<close> set it to 0). From a fresh breaker, as long as fewer than \<open>threshold\<close> calls have
  failed in total, every call is attempted, the breaker is closed and \<open>failures\<close> is the
  number of failed calls so far; one more failed call opens the breaker exactly if it
  brings that number to \<open>threshold\<close>, whether or not successes came in between.
\<close>

theorem breaker_counts_all_failures:
  fixes cs :: "'a breaker_call list"
  assumes few: "int (failed_calls cs) < thr"
  shows "(let fresh = new_CircuitBreaker (Some thr) rst;
              cb = fst (execute_all fresh cs);
              rs = snd (execute_all fresh cs)
          in cb_state cb = Closed
           \<and> failures cb = int (failed_calls cs)
           \<and> list_all attempted rs
           \<and> (cb_state (breaker (execute cb now (Inl e :: thrown + 'a) t)) = Open
                \<longleftrightarrow> thr \<le> int (failed_calls cs) + 1))"
proof -
  let ?fresh = "new_CircuitBreaker (Some thr) rst"
  have init: "cb_state ?fresh = Closed" "failures ?fresh = 0" "threshold ?fresh = thr"
    by (simp_all add: new_CircuitBreaker_def)
  have "failures ?fresh + int (failed_calls cs) < threshold ?fresh"
    using few init by simp
  from execute_all_closed[OF init(1) this]
  have run: "cb_state (fst (execute_all ?fresh cs)) = Closed"
    "failures (fst (execute_all ?fresh cs)) = int (failed_calls cs)"
    "threshold (fst (execute_all ?fresh cs)) = thr"
    "list_all attempted (snd (execute_all ?fresh cs))"
    using init by simp_all
  show ?thesis
    unfolding Let_def using run by (simp add: execute_closed_failure)
qed

theorem breaker_counts_all_failures_witness:
  "cb_state (fst (execute_all (new_CircuitBreaker (Some 3) None)
      [failing_call 1000, succeeding_call 2000, failing_call 3000])) = Closed
   \<and> failures (fst (execute_all (new_CircuitBreaker (Some 3) None)
      [failing_call 1000, succeeding_call 2000, failing_call 3000])) = 2
   \<and> cb_state (breaker (execute (fst (execute_all (new_CircuitBreaker (Some 3) None)
      [failing_call 1000, succeeding_call 2000, failing_call 3000]))
        4000 (Inl service_unavailable :: thrown + unit) 4000)) = Open"
proof -
  have n: "failed_calls [failing_call 1000, succeeding_call 2000, failing_call 3000] = 2"
    by (simp add: failed_calls_def failing_call_def succeeding_call_def)
  have few: "int (failed_calls [failing_call 1000, succeeding_call 2000, failing_call 3000]) < 3"
    by (simp add: n)
  from breaker_counts_all_failures[OF few, of None 4000 service_unavailable 4000]
  show ?thesis unfolding Let_def n by simp
qed

text \<open>
  C7 as it is written does not hold: with \<open>threshold = 3\<close>, the calls fail, fail, succeed,
  fail are all attempted, no three failures are consecutive, and the breaker is open after
  the fourth.
\<close>

theorem breaker_interleaved_counterexample:
  "cb_state (fst (execute_all (new_CircuitBreaker (Some 3) None)
      [failing_call 1000, failing_call 2000, succeeding_call 3000, failing_call 4000])) = Open
   \<and> map attempted (snd (execute_all (new_CircuitBreaker (Some 3) None)
      [failing_call 1000, failing_call 2000, succeeding_call 3000, failing_call 4000]))
       = [True, True, True, True]"
  by (simp add: new_CircuitBreaker_def failing_call_def succeeding_call_def execute_def Let_def)

section \<open>Runs of the graph, node by node\<close>

lemma executed_after [simp]: "executed (after n r) = n # executed r"
  and final_state_after [simp]: "final_state (after n r) = final_state r"
  and interrupted_after [simp]: "interrupted (after n r) = interrupted r"
  by (simp_all add: after_def)

lemma run_from_step:
  "run_node mcp n s = Update u \<Longrightarrow> next_target n (apply_update s u) = Goto m \<Longrightarrow>
   run_from mcp n s = after n (run_from mcp m (apply_update s u))"
  by (simp add: run_from.simps after_def Let_def)


lemma run_from_fail:
  "run_from mcp fail s =
     \<lparr>final_state = apply_update s (handleFailure s (clock mcp fail)),
      executed = [fail], interrupted = None\<rparr>"
  by (simp add: run_from.simps run_node_def next_target_def)

lemma run_from_initialize:
  "run_from mcp initialize s =
     after initialize (run_from mcp extract_design
       (apply_update s (initializeWorkflow s (clock mcp initialize))))"
  by (rule run_from_step) (simp_all add: run_node_def next_target_def)

lemma run_from_extract_design:
  "run_from mcp extract_design s =
     (let s' = apply_update s (extractDesignContext s (figmaClient mcp) (clock mcp extract_design))
      in after extract_design
           (if currentStep s' = FAILED then run_from mcp fail s' else run_from mcp get_screenshot s'))"
  by (simp add: run_from.simps[of mcp extract_design] run_node_def next_target_def after_def Let_def)

lemma currentStep_apply_update:
  "currentStep (apply_update s u) = (case u_currentStep u of None \<Rightarrow> currentStep s | Some v \<Rightarrow> v)"
  by (simp add: apply_update_def)

lemma getScreenshot_updates:
  "getScreenshot s client now resume = Update u \<Longrightarrow>
   u = no_update\<lparr>u_currentStep := Some ANALYZING\<rparr>
   \<or> (\<exists>shot. u = no_update\<lparr>u_screenshot := Some shot, u_currentStep := Some ANALYZING\<rparr>)
   \<or> (\<exists>shot. u = no_update\<lparr>u_screenshot := Some shot, u_userProvidedScreenshot := Some True,
                     u_currentStep := Some ANALYZING\<rparr>)"
  by (auto simp: getScreenshot_def Let_def interrupt_def
      split: option.splits if_splits sum.splits UserInput.splits)

lemma getScreenshot_step:
  assumes "getScreenshot s client now resume = Update u"
  shows "u_currentStep u = Some ANALYZING" "u_awaitingUserInput u = None" "u_errors u = None"
    "u_validation u = None" "u_designContext u = None" "u_input u = None"
  using getScreenshot_updates[OF assms] by (auto simp: no_update_def)

lemma run_from_get_screenshot:
  "run_from mcp get_screenshot s =
     (case getScreenshot s (figmaClient mcp) (clock mcp get_screenshot) None of
        Interrupted request \<Rightarrow>
          \<lparr>final_state = s, executed = [get_screenshot], interrupted = Some request\<rparr>
      | Update u \<Rightarrow> after get_screenshot (run_from mcp analyze (apply_update s u)))"
proof (cases "getScreenshot s (figmaClient mcp) (clock mcp get_screenshot) None")
  case (Interrupted request)
  then show ?thesis by (simp add: run_from.simps[of mcp get_screenshot] run_node_def)
next
  case (Update u)
  have "currentStep (apply_update s u) = ANALYZING"
    using getScreenshot_step(1)[OF Update] by (simp add: currentStep_apply_update)
  then show ?thesis using Update
    by (simp add: run_from.simps[of mcp get_screenshot] run_node_def next_target_def after_def Let_def)
qed

lemma run_from_analyze:
  "run_from mcp analyze s =
     (let s' = apply_update s (analyzeBlockStructure s (edsClient mcp) (clock mcp analyze))
      in after analyze
           (if currentStep s' = FAILED then run_from mcp fail s' else run_from mcp generate s'))"
  by (simp add: run_from.simps[of mcp analyze] run_node_def next_target_def after_def Let_def)

lemma run_from_generate:
  "run_from mcp generate s =
     (let s' = apply_update s (generateEdsBlock s (edsClient mcp) (clock mcp generate))
      in after generate
           (if currentStep s' = FAILED then run_from mcp fail s' else run_from mcp validate s'))"
  by (simp add: run_from.simps[of mcp generate] run_node_def next_target_def after_def Let_def)




text \<open>What a node leaves as it is when it does not fail.\<close>

lemma initialize_frame:
  "errors (apply_update s (initializeWorkflow s t)) = errors s"
  "validation (apply_update s (initializeWorkflow s t)) = validation s"
  "designContext (apply_update s (initializeWorkflow s t)) = designContext s"
  "options (input (apply_update s (initializeWorkflow s t))) = options (input s)"
  by (auto simp: initializeWorkflow_def apply_update_def no_update_def errors_reducer_def Let_def
      split: option.splits)

lemma extract_frame:
  assumes "currentStep (apply_update s (extractDesignContext s c t)) \<noteq> FAILED"
  shows "errors (apply_update s (extractDesignContext s c t)) = errors s"
    "validation (apply_update s (extractDesignContext s c t)) = validation s"
    "input (apply_update s (extractDesignContext s c t)) = input s"
  using assms
  by (auto simp: extractDesignContext_def apply_update_def no_update_def failed_with_def Let_def
      split: option.splits if_splits)

lemma getScreenshot_frame:
  assumes "getScreenshot s c t r = Update u"
  shows "errors (apply_update s u) = errors s"
    "validation (apply_update s u) = validation s"
    "input (apply_update s u) = input s"
    "designContext (apply_update s u) = designContext s"
  using getScreenshot_step[OF assms] by (simp_all add: apply_update_def)

lemma analyze_frame:
  assumes "currentStep (apply_update s (analyzeBlockStructure s c t)) \<noteq> FAILED"
  shows "errors (apply_update s (analyzeBlockStructure s c t)) = errors s"
    "validation (apply_update s (analyzeBlockStructure s c t)) = validation s"
    "input (apply_update s (analyzeBlockStructure s c t)) = input s"
    "has_generatedCode (apply_update s (analyzeBlockStructure s c t))"
  using assms
  by (auto simp: analyzeBlockStructure_def apply_update_def no_update_def failed_with_def Let_def
      has_generatedCode_def split: option.splits if_splits)







text \<open>
  What the \<open>generate\<close> stage finds in the state when a run reaches it: the input as
  \<open>initialize\<close> left it, the design context and the screenshot that the design-source
  connector returned for the node id, and no metadata.
\<close>

lemma initialize_keeps:
  "metadata (apply_update s (initializeWorkflow s t)) = metadata s"
  "blockName (input (apply_update s (initializeWorkflow s t))) = blockName (input s)"
  "outputPath (input (apply_update s (initializeWorkflow s t))) = outputPath (input s)"
  by (auto simp: initializeWorkflow_def apply_update_def no_update_def Let_def
      split: option.splits)

lemma extract_passes:
  assumes "currentStep (apply_update s (extractDesignContext s c t)) \<noteq> FAILED"
  shows "\<exists>n. figmaNodeId (input s) = Some n \<and> n \<noteq> []
           \<and> designContext (apply_update s (extractDesignContext s c t))
               = data (figma_getDesignContext c n)"
    "screenshot (apply_update s (extractDesignContext s c t)) = screenshot s"
    "metadata (apply_update s (extractDesignContext s c t)) = metadata s"
  using assms
  by (auto simp: extractDesignContext_def apply_update_def no_update_def failed_with_def Let_def
      split: option.splits if_splits)

lemma getScreenshot_passes:
  assumes "getScreenshot s c t None = Update u" "figmaNodeId (input s) = Some n" "n \<noteq> []"
  shows "screenshot (apply_update s u) = data (figma_getScreenshot c n)"
    "metadata (apply_update s u) = metadata s"
  using assms
  by (auto simp: getScreenshot_def apply_update_def no_update_def Let_def interrupt_def
      split: option.splits if_splits)

lemma analyze_passes:
  assumes "currentStep (apply_update s (analyzeBlockStructure s c t)) \<noteq> FAILED"
  shows "designContext (apply_update s (analyzeBlockStructure s c t)) = designContext s"
    "screenshot (apply_update s (analyzeBlockStructure s c t)) = screenshot s"
    "metadata (apply_update s (analyzeBlockStructure s c t)) = metadata s"
  using assms
  by (auto simp: analyzeBlockStructure_def apply_update_def no_update_def failed_with_def Let_def
      split: option.splits if_splits)

lemma reach_generate_call:
  assumes reached: "generate \<in> set (executed (run_from mcp initialize s))"
  shows "\<exists>s4 n dc. run_from mcp initialize s =
        after initialize (after extract_design (after get_screenshot (after analyze
          (run_from mcp generate s4))))
     \<and> errors s4 = errors s
     \<and> input s4 = input (apply_update s (initializeWorkflow s (clock mcp initialize)))
     \<and> figmaNodeId (input s4) = Some n
     \<and> data (figma_getDesignContext (figmaClient mcp) n) = Some dc
     \<and> designContext s4 = Some dc \<and> generatedCode dc \<noteq> []
     \<and> screenshot s4 = data (figma_getScreenshot (figmaClient mcp) n)
     \<and> metadata s4 = metadata s"
proof -
  let ?s1 = "apply_update s (initializeWorkflow s (clock mcp initialize))"
  let ?s2 = "apply_update ?s1 (extractDesignContext ?s1 (figmaClient mcp) (clock mcp extract_design))"
  have r1: "run_from mcp initialize s = after initialize (run_from mcp extract_design ?s1)"
    by (rule run_from_initialize)
  have m1: "generate \<in> set (executed (run_from mcp extract_design ?s1))"
    using reached r1 by simp
  have ok2: "currentStep ?s2 \<noteq> FAILED"
    using m1 by (auto simp: run_from_extract_design run_from_fail Let_def split: if_splits)
  have r2: "run_from mcp extract_design ?s1 = after extract_design (run_from mcp get_screenshot ?s2)"
    using ok2 by (simp add: run_from_extract_design Let_def)
  have m2: "generate \<in> set (executed (run_from mcp get_screenshot ?s2))"
    using m1 r2 by simp
  from extract_passes(1)[OF ok2] obtain n where
    n: "figmaNodeId (input ?s1) = Some n" "n \<noteq> []"
      "designContext ?s2 = data (figma_getDesignContext (figmaClient mcp) n)"
    by blast
  note f2 = extract_frame[OF ok2] extract_passes(2,3)[OF ok2]
  obtain u where u: "getScreenshot ?s2 (figmaClient mcp) (clock mcp get_screenshot) None = Update u"
    using m2 by (cases "getScreenshot ?s2 (figmaClient mcp) (clock mcp get_screenshot) None")
      (simp_all add: run_from_get_screenshot)
  let ?s3 = "apply_update ?s2 u"
  have r3: "run_from mcp get_screenshot ?s2 = after get_screenshot (run_from mcp analyze ?s3)"
    using u by (simp add: run_from_get_screenshot)
  have m3: "generate \<in> set (executed (run_from mcp analyze ?s3))"
    using m2 r3 by simp
  have n2: "figmaNodeId (input ?s2) = Some n" using n(1) f2(3) by simp
  note f3 = getScreenshot_frame[OF u] getScreenshot_passes[OF u n2 n(2)]
  let ?s4 = "apply_update ?s3 (analyzeBlockStructure ?s3 (edsClient mcp) (clock mcp analyze))"
  have ok4: "currentStep ?s4 \<noteq> FAILED"
    using m3 by (auto simp: run_from_analyze run_from_fail Let_def split: if_splits)
  have r4: "run_from mcp analyze ?s3 = after analyze (run_from mcp generate ?s4)"
    using ok4 by (simp add: run_from_analyze Let_def)
  note f4 = analyze_frame[OF ok4] analyze_passes[OF ok4]
  have run: "run_from mcp initialize s =
        after initialize (after extract_design (after get_screenshot (after analyze
          (run_from mcp generate ?s4))))"
    by (simp only: r1 r2 r3 r4)
  have errs: "errors ?s4 = errors s"
    using f4(1) f3(1) f2(1) initialize_frame(1)[of s "clock mcp initialize"] by simp
  have inp: "input ?s4 = input ?s1" using f4(3) f3(3) f2(3) by simp
  have dc4: "designContext ?s4 = data (figma_getDesignContext (figmaClient mcp) n)"
    using f4(5) f3(4) n(3) by simp
  have shot: "screenshot ?s4 = data (figma_getScreenshot (figmaClient mcp) n)"
    using f4(6) f3(5) by simp
  have meta: "metadata ?s4 = metadata s"
    using f4(7) f3(6) f2(5) initialize_keeps(1)[of s "clock mcp initialize"] by simp
  obtain dc where dc: "designContext ?s4 = Some dc" "generatedCode dc \<noteq> []"
    using f4(4) by (auto simp: has_generatedCode_def split: option.splits)
  show ?thesis
    using run errs inp n(1) dc4 dc shot meta by (intro exI[of _ ?s4] exI[of _ n] exI[of _ dc]) simp
qed

section \<open>Runs of the workflow\<close>

lemma runWorkflow_run_from:
  "runWorkflow inp mcp tid now = run_from mcp initialize (initialState inp now)"
  by (simp add: runWorkflow_def invoke_def createWorkflow_def Let_def)

text \<open>
  C8, as the code has it. In a run that reaches the \<open>generate\<close> stage, the stage calls
  the generation connector's \<open>generateEdsBlock\<close> with the block name and output path of the
  input, the code of the design context that the design-source connector returned for the
  node id, the data of the screenshot, no metadata, the options \<open>persistContext\<close> and
  \<open>updateSectionModel\<close> of the input, and \<open>validateOutput: false\<close>. When the answer to
  this call is a failure (\<open>unauthorized\<close> or any other), the run goes through \<open>fail\<close> and
  returns \<open>currentStep = FAILED\<close> with exactly one error: the one of the \<open>generate\<close>
  stage, with \<open>step = GENERATING\<close>, the message of that answer (or
  \<open>Block generation failed\<close> when it gives none), and \<open>retryable = true\<close>. The stage
  marks every failure of the connector call retryable; it has no classification of
  connector errors.
\<close>

theorem generation_failure_is_marked_retryable:
  "(let r = runWorkflow inp mcp tid now;
        started = apply_update (initialState inp now)
                    (initializeWorkflow (initialState inp now) (clock mcp initialize));
        nodeId = the (figmaNodeId (input started));
        design = the (data (figma_getDesignContext (figmaClient mcp) nodeId));
        shot = data (figma_getScreenshot (figmaClient mcp) nodeId);
        answer = eds_generateEdsBlock (edsClient mcp) (blockName inp) (outputPath inp)
                   (generatedCode design)
                   \<lparr>go_screenshot = map_option ss_data shot, go_metadata = None,
                    go_persistContext = map_option persistContext (options inp),
                    go_updateSectionModel = map_option updateSectionModel (options inp),
                    go_validateOutput = Some False\<rparr>
    in generate \<in> set (executed r) \<and> call_failed answer \<longrightarrow>
         currentStep (final_state r) = FAILED
       \<and> errors (final_state r) =
           [stage_error GENERATING (or_else (error answer) ''Block generation failed'')
              (clock mcp generate) True]
       \<and> map retryable (errors (final_state r)) = [True]
       \<and> executed r = [initialize, extract_design, get_screenshot, analyze, generate, fail]
       \<and> interrupted r = None)"
proof -
  let ?s0 = "initialState inp now"
  let ?s1 = "apply_update ?s0 (initializeWorkflow ?s0 (clock mcp initialize))"
  let ?n = "the (figmaNodeId (input ?s1))"
  let ?dc = "the (data (figma_getDesignContext (figmaClient mcp) ?n))"
  let ?answer = "eds_generateEdsBlock (edsClient mcp) (blockName inp) (outputPath inp)
                   (generatedCode ?dc)
                   \<lparr>go_screenshot = map_option ss_data (data (figma_getScreenshot (figmaClient mcp) ?n)),
                    go_metadata = None,
                    go_persistContext = map_option persistContext (options inp),
                    go_updateSectionModel = map_option updateSectionModel (options inp),
                    go_validateOutput = Some False\<rparr>"
  let ?e = "stage_error GENERATING (or_else (error ?answer) ''Block generation failed'')
              (clock mcp generate) True"
  have goal: "currentStep (final_state (runWorkflow inp mcp tid now)) = FAILED
       \<and> errors (final_state (runWorkflow inp mcp tid now)) = [?e]
       \<and> map retryable (errors (final_state (runWorkflow inp mcp tid now))) = [True]
       \<and> executed (runWorkflow inp mcp tid now)
           = [initialize, extract_design, get_screenshot, analyze, generate, fail]
       \<and> interrupted (runWorkflow inp mcp tid now) = None"
    if reached: "generate \<in> set (executed (runWorkflow inp mcp tid now))"
      and failed: "call_failed ?answer"
  proof -
    have "generate \<in> set (executed (run_from mcp initialize ?s0))"
      using reached by (simp add: runWorkflow_run_from)
    from reach_generate_call[OF this] obtain s4 n dc where
      run: "run_from mcp initialize ?s0 =
          after initialize (after extract_design (after get_screenshot (after analyze
            (run_from mcp generate s4))))"
      and errs: "errors s4 = errors ?s0"
      and inp4: "input s4 = input ?s1"
      and n: "figmaNodeId (input s4) = Some n"
      and dcn: "data (figma_getDesignContext (figmaClient mcp) n) = Some dc"
      and dc: "designContext s4 = Some dc" "generatedCode dc \<noteq> []"
      and shot: "screenshot s4 = data (figma_getScreenshot (figmaClient mcp) n)"
      and meta: "metadata s4 = metadata ?s0"
      by blast
    have no_errors: "errors s4 = []" using errs by (simp add: initialState_def)
    have n': "?n = n" using n inp4 by simp
    have dc': "the (data (figma_getDesignContext (figmaClient mcp) n)) = dc" using dcn by simp
    have names: "blockName (input s4) = blockName inp" "outputPath (input s4) = outputPath inp"
      "options (input s4) = options inp"
      using inp4 initialize_keeps(2,3)[of ?s0 "clock mcp initialize"]
        initialize_frame(4)[of ?s0 "clock mcp initialize"]
      by (simp_all add: initialState_def)
    have meta': "metadata s4 = None" using meta by (simp add: initialState_def)
    have u: "generateEdsBlock s4 (edsClient mcp) (clock mcp generate) = failed_with s4 ?e"
      using failed unfolding n' dc' call_failed_def
      by (simp add: generateEdsBlock_def Let_def dc names meta' shot)
    let ?s5 = "apply_update s4 (failed_with s4 ?e)"
    have s5: "errors ?s5 = [?e]" "currentStep ?s5 = FAILED"
      using no_errors
      by (simp_all add: apply_update_def failed_with_def no_update_def errors_reducer_def)
    have gen: "run_from mcp generate s4 = after generate (run_from mcp fail ?s5)"
      using s5(2) by (simp add: run_from_generate u Let_def)
    let ?s6 = "apply_update ?s5 (handleFailure ?s5 (clock mcp fail))"
    have s6: "currentStep ?s6 = FAILED" "errors ?s6 = errors ?s5"
      by (simp_all add: apply_update_def handleFailure_def no_update_def)
    have e: "retryable ?e" by (simp add: stage_error_def)
    have fin: "final_state (runWorkflow inp mcp tid now) = ?s6"
      "executed (runWorkflow inp mcp tid now)
         = [initialize, extract_design, get_screenshot, analyze, generate, fail]"
      "interrupted (runWorkflow inp mcp tid now) = None"
      unfolding runWorkflow_run_from run gen run_from_fail by simp_all
    show ?thesis unfolding fin using s5 s6 e by simp
  qed
  show ?thesis unfolding Let_def using goal by blast
qed

lemma unauthorized_run_executed:
  "executed unauthorized_run = [initialize, extract_design, get_screenshot, analyze, generate, fail]"
  by code_simp

theorem generation_failure_is_marked_retryable_witness:
  "currentStep (final_state unauthorized_run) = FAILED
   \<and> errors (final_state unauthorized_run) = [stage_error GENERATING ''unauthorized'' 140 True]
   \<and> map retryable (errors (final_state unauthorized_run)) = [True]
   \<and> interrupted unauthorized_run = None"
proof -
  have reached: "generate \<in> set (executed (runWorkflow sample_input
      (mcp_with figma_ok eds_unauthorized) ''t1'' 90))"
    using unauthorized_run_executed by (simp add: unauthorized_run_def)
  have answer: "eds_generateEdsBlock (edsClient (mcp_with figma_ok eds_unauthorized)) n p c opts
      = tool_failed ''unauthorized''" for n p c opts
    by (simp add: mcp_with_def eds_unauthorized_def)
  have t: "clock (mcp_with figma_ok eds_unauthorized) generate = 140"
    by (simp add: mcp_with_def sample_clock_def node_rank_def)
  note run = generation_failure_is_marked_retryable[of sample_input "mcp_with figma_ok eds_unauthorized" "''t1''" 90,
      unfolded Let_def answer]
  have "generate \<in> set (executed (runWorkflow sample_input
            (mcp_with figma_ok eds_unauthorized) ''t1'' 90))
      \<and> call_failed (tool_failed ''unauthorized'' :: GeneratedFiles MCPToolResult)"
    using reached by (simp add: tool_failed_def call_failed_def)
  from mp[OF run this] show ?thesis
    unfolding unauthorized_run_def t by (simp add: tool_failed_def or_else_def stage_error_def)
qed

text \<open>
  C8 as it is written does not hold: when the generation call answers \<open>unauthorized\<close> the
  run fails with one error, and that error has \<open>retryable = true\<close>.
\<close>

theorem generation_unauthorized_counterexample:
  "currentStep (final_state unauthorized_run) = FAILED
   \<and> map message (errors (final_state unauthorized_run)) = [''unauthorized'']
   \<and> map retryable (errors (final_state unauthorized_run)) = [True]"
  by code_simp





section \<open>Suspension\<close>

text \<open>
  No node returns \<open>currentStep = AWAITING_USER_INPUT\<close> or an \<open>awaitingUserInput\<close>
  descriptor, so no run ends with either.
\<close>

lemma run_node_never_awaits:
  "run_node mcp n s = Update u \<Longrightarrow>
   u_awaitingUserInput u = None \<and> u_currentStep u \<noteq> Some AWAITING_USER_INPUT
   \<and> u_currentStep u \<noteq> None"
proof (cases n)
  case get_screenshot
  assume "run_node mcp n s = Update u"
  then have "getScreenshot s (figmaClient mcp) (clock mcp get_screenshot) None = Update u"
    using get_screenshot by (simp add: run_node_def)
  from getScreenshot_step(1,2)[OF this] show ?thesis by simp
qed (auto simp: run_node_def initializeWorkflow_def extractDesignContext_def
      analyzeBlockStructure_def generateEdsBlock_def validateBlock_def completeWorkflow_def
      handleFailure_def failed_with_def no_update_def Let_def split: option.splits if_splits)

lemma run_from_never_awaits:
  "awaitingUserInput (final_state (run_from mcp n s)) = awaitingUserInput s
   \<and> (currentStep s \<noteq> AWAITING_USER_INPUT \<longrightarrow>
        currentStep (final_state (run_from mcp n s)) \<noteq> AWAITING_USER_INPUT)"
proof (induction mcp n s rule: run_from.induct)
  case (1 mcp n s)
  show ?case
  proof (cases "run_node mcp n s")
    case (Interrupted request)
    then show ?thesis by (simp add: run_from.simps[of mcp n s])
  next
    case (Update u)
    let ?s' = "apply_update s u"
    from run_node_never_awaits[OF Update]
    have s': "awaitingUserInput ?s' = awaitingUserInput s" "currentStep ?s' \<noteq> AWAITING_USER_INPUT"
      by (auto simp: apply_update_def split: option.splits)
    show ?thesis
    proof (cases "next_target n ?s'")
      case END
      then show ?thesis using Update s' by (simp add: run_from.simps[of mcp n s])
    next
      case (Goto m)
      have "run_from mcp n s = after n (run_from mcp m ?s')"
        by (rule run_from_step[OF Update Goto])
      then show ?thesis using "1.IH"[OF Update refl Goto] s' by simp
    qed
  qed
qed

lemma runWorkflow_never_awaits:
  "awaitingUserInput (final_state (runWorkflow inp mcp tid now)) = None
   \<and> currentStep (final_state (runWorkflow inp mcp tid now)) \<noteq> AWAITING_USER_INPUT"
  using run_from_never_awaits[of mcp initialize "initialState inp now"]
  by (simp add: runWorkflow_run_from initialState_def)

text \<open>A run that is not interrupted ends in \<open>complete\<close> or in \<open>fail\<close>.\<close>

lemma run_from_terminal:
  "interrupted (run_from mcp n s) = None \<Longrightarrow>
   currentStep (final_state (run_from mcp n s)) \<in> {COMPLETED, FAILED}"
proof (induction mcp n s rule: run_from.induct)
  case (1 mcp n s)
  show ?case
  proof (cases "run_node mcp n s")
    case (Interrupted request)
    with "1.prems" show ?thesis by (simp add: run_from.simps[of mcp n s])
  next
    case (Update u)
    let ?s' = "apply_update s u"
    show ?thesis
    proof (cases "next_target n ?s'")
      case END
      have fin: "final_state (run_from mcp n s) = ?s'"
        using Update END by (simp add: run_from.simps[of mcp n s])
      have never: "currentStep ?s' \<noteq> AWAITING_USER_INPUT"
        using run_node_never_awaits[OF Update] by (auto simp: apply_update_def)
      from END never consider "n = complete" | "n = fail"
        by (cases n) (auto simp: next_target_def split: if_splits)
      then show ?thesis
      proof cases
        case 1
        then show ?thesis using Update fin
          by (auto simp: run_node_def completeWorkflow_def apply_update_def no_update_def)
      next
        case 2
        then show ?thesis using Update fin
          by (auto simp: run_node_def handleFailure_def apply_update_def no_update_def)
      qed
    next
      case (Goto m)
      have unf: "run_from mcp n s = after n (run_from mcp m ?s')"
        by (rule run_from_step[OF Update Goto])
      have "interrupted (run_from mcp m ?s') = None" using "1.prems" unf by simp
      from "1.IH"[OF Update refl Goto this] show ?thesis using unf by simp
    qed
  qed
qed

text \<open>
  An interrupted run was interrupted in \<open>get_screenshot\<close>, and returns the marker that
  \<open>extract_design\<close> left: \<open>getting_screenshot\<close>, or \<open>analyzing\<close> under \<open>skipScreenshot\<close>.
\<close>

lemma executed_nonempty: "executed (run_from mcp n s) \<noteq> []"
  by (subst run_from.simps)
     (simp add: Let_def split: NodeOutcome.splits Target.splits)

lemma run_from_interrupted_at:
  "interrupted (run_from mcp n s) \<noteq> None \<Longrightarrow>
   last (executed (run_from mcp n s)) = get_screenshot
   \<and> (n \<noteq> get_screenshot \<longrightarrow> node_rank get_screenshot < node_rank n)"
proof (induction mcp n s rule: run_from.induct)
  case (1 mcp n s)
  show ?case
  proof (cases "run_node mcp n s")
    case (Interrupted request)
    then have n: "n = get_screenshot"
      by (cases n) (auto simp: run_node_def)
    have "executed (run_from mcp n s) = [n]"
      using Interrupted by (simp add: run_from.simps[of mcp n s])
    then show ?thesis using n by simp
  next
    case (Update u)
    let ?s' = "apply_update s u"
    show ?thesis
    proof (cases "next_target n ?s'")
      case END
      then show ?thesis using Update "1.prems" by (simp add: run_from.simps[of mcp n s])
    next
      case (Goto m)
      have unf: "run_from mcp n s = after n (run_from mcp m ?s')"
        by (rule run_from_step[OF Update Goto])
      have int: "interrupted (run_from mcp m ?s') \<noteq> None" using "1.prems" unf by simp
      note IH = "1.IH"[OF Update refl Goto int]
      have ne: "executed (run_from mcp m ?s') \<noteq> []"
        by (rule executed_nonempty)
      have rank: "node_rank m < node_rank n"
        using Goto by (cases n) (auto simp: next_target_def node_rank_def split: if_splits)
      show ?thesis using IH unf ne rank by auto
    qed
  qed
qed


lemma extract_steps:
  "currentStep (apply_update s (extractDesignContext s c t)) \<in> {FAILED, GETTING_SCREENSHOT, ANALYZING}"
  by (auto simp: extractDesignContext_def apply_update_def no_update_def failed_with_def Let_def
      split: option.splits if_splits)

lemma runWorkflow_interrupted_step:
  assumes "interrupted (runWorkflow inp mcp tid now) \<noteq> None"
  shows "currentStep (final_state (runWorkflow inp mcp tid now)) \<in> {GETTING_SCREENSHOT, ANALYZING}"
proof -
  let ?s0 = "initialState inp now"
  let ?s1 = "apply_update ?s0 (initializeWorkflow ?s0 (clock mcp initialize))"
  let ?s2 = "apply_update ?s1 (extractDesignContext ?s1 (figmaClient mcp) (clock mcp extract_design))"
  have int: "interrupted (run_from mcp initialize ?s0) \<noteq> None"
    using assms by (simp add: runWorkflow_run_from)
  have r1: "run_from mcp initialize ?s0 = after initialize (run_from mcp extract_design ?s1)"
    by (rule run_from_initialize)
  have "interrupted (run_from mcp extract_design ?s1) \<noteq> None"
    using int r1 by simp
  then have ok: "currentStep ?s2 \<noteq> FAILED"
    unfolding run_from_extract_design Let_def
    by (cases "currentStep ?s2 = FAILED") (simp_all add: run_from_fail)
  then have r2: "run_from mcp extract_design ?s1 = after extract_design (run_from mcp get_screenshot ?s2)"
    by (simp add: run_from_extract_design Let_def)
  have step: "currentStep ?s2 \<in> {GETTING_SCREENSHOT, ANALYZING}"
    using ok extract_steps[of ?s1 "figmaClient mcp" "clock mcp extract_design"] by simp
  have int2: "interrupted (run_from mcp get_screenshot ?s2) \<noteq> None"
    using int r1 r2 by simp
  have "final_state (run_from mcp get_screenshot ?s2) = ?s2"
  proof (cases "getScreenshot ?s2 (figmaClient mcp) (clock mcp get_screenshot) None")
    case (Interrupted request)
    then show ?thesis by (simp add: run_from_get_screenshot)
  next
    case (Update u)
    then have "interrupted (run_from mcp analyze (apply_update ?s2 u)) \<noteq> None"
      using int2 by (simp add: run_from_get_screenshot)
    from run_from_interrupted_at[OF this] show ?thesis by (simp add: node_rank_def)
  qed
  then show ?thesis using step r1 r2 by (simp add: runWorkflow_run_from)
qed

text \<open>
  C1 says that a failed screenshot call makes the \<open>get_screenshot\<close> stage return
  \<open>currentStep = AWAITING_USER_INPUT\<close> with an \<open>awaitingUserInput\<close> descriptor, which the
  run then returns. The code at the scenario's input (node id \<open>R1\<close>, \<open>skipScreenshot\<close> not
  set, screenshot call fails): the stage calls \<open>interrupt\<close> and returns nothing, the run
  stops after \<open>get_screenshot\<close> without an error, and the state it returns has no
  \<open>awaitingUserInput\<close> and a \<open>currentStep\<close> other than \<open>AWAITING_USER_INPUT\<close>. The prompt
  exists only as the argument of \<open>interrupt\<close>.
\<close>

theorem screenshot_failure_leaves_no_request:
  "success (figma_getScreenshot (figmaClient (mcp_with figma_no_screenshot eds_no_validation))
      ''R1'') = False
   \<and> executed suspended_run = [initialize, extract_design, get_screenshot]
   \<and> map_option ir_message (interrupted suspended_run) =
       Some ''Screenshot capture failed: Tool disabled. Please provide a screenshot of the Figma design (node: R1) to improve block generation accuracy.''
   \<and> awaitingUserInput (final_state suspended_run) = None
   \<and> currentStep (final_state suspended_run) \<noteq> AWAITING_USER_INPUT
   \<and> errors (final_state suspended_run) = []"
  by code_simp

text \<open>
  C3 says that every run returns \<open>COMPLETED\<close>, \<open>FAILED\<close> or \<open>AWAITING_USER_INPUT\<close> as
  \<open>currentStep\<close>. The code at the same input: the interrupted run returns the marker that
  \<open>extract_design\<close> left, \<open>getting_screenshot\<close>.
\<close>

theorem suspended_run_ends_in_stage_marker:
  "figmaNodeId sample_input = Some ''R1''
   \<and> options sample_input = None
   \<and> interrupted suspended_run \<noteq> None
   \<and> currentStep (final_state suspended_run) = GETTING_SCREENSHOT"
  by code_simp

section \<open>Resume\<close>

text \<open>
  The checkpoint that a run writes stays in the checkpointer of the graph that ran it, and
  \<open>runWorkflow\<close> keeps neither. \<open>resumeWorkflow\<close> compiles a graph of its own with a new
  \<open>MemorySaver\<close>, which holds no checkpoint for any thread: whatever the payload, the
  client and the thread id, it finds the empty values, whose \<open>currentStep\<close> is not
  \<open>AWAITING_USER_INPUT\<close>, returns them and runs no node. The branch that resumes a thread
  is never taken.
\<close>

lemma invoke_stores_final_state:
  "getState (snd (invoke graph s threadId)) threadId
     = Some (final_state (fst (invoke graph s threadId)))"
  by (simp add: invoke_def getState_def Let_def)

lemma resumeWorkflow_new_saver:
  "getState (createWorkflow mcp None) threadId = None"
  "resumeWorkflow userInput mcp threadId now = (None, [])"
  by (simp_all add: resumeWorkflow_def createWorkflow_def getState_def)

text \<open>
  C2 says that \<open>resumeWorkflow\<close>, for a thread whose stored state is not awaiting input,
  runs no stage and returns the stored state unchanged. The code at the thread \<open>t1\<close> of a
  run that failed in \<open>generate\<close>: the run stored its final state, with
  \<open>currentStep = FAILED\<close>, under \<open>t1\<close> in the checkpointer of its graph;
  \<open>resumeWorkflow\<close> with the payload \<open>skip\<close> on \<open>t1\<close> runs no node, as the claim says,
  but returns the empty values and not the stored state.
\<close>

theorem resumeWorkflow_returns_no_stored_state:
  "getState (snd (invoke (createWorkflow (mcp_with figma_ok eds_unauthorized) None)
                    (initialState sample_input 90) ''t1'')) ''t1''
     = Some (final_state unauthorized_run)
   \<and> currentStep (final_state unauthorized_run) = FAILED
   \<and> resumeWorkflow (UserText ''skip'') (mcp_with figma_ok eds_unauthorized) ''t1'' 500
       = (None, [])"
proof -
  have "getState (snd (invoke (createWorkflow (mcp_with figma_ok eds_unauthorized) None)
                    (initialState sample_input 90) ''t1'')) ''t1''
     = Some (final_state unauthorized_run)"
    by (simp add: invoke_stores_final_state unauthorized_run_def runWorkflow_def Let_def)
  moreover have "currentStep (final_state unauthorized_run) = FAILED"
    by code_simp
  moreover have "resumeWorkflow (UserText ''skip'') (mcp_with figma_ok eds_unauthorized) ''t1'' 500
       = (None, [])"
    by (simp add: resumeWorkflow_def createWorkflow_def getState_def)
  ultimately show ?thesis by simp
qed

section \<open>Saving and loading a state\<close>

text \<open>Parsing what \<open>JSON.stringify\<close> wrote gives the value back when JSON can represent it.\<close>

lemma JSON_roundtrip:
  "json_representable v \<Longrightarrow> map_option JSON_parse (JSON_stringify v) = Some v"
proof (induction v)
  case (JArray vs)
  have "JSON_parse (case JSON_stringify v of None \<Rightarrow> JsonNull | Some j \<Rightarrow> j) = v"
    if "v \<in> set vs" for v
  proof -
    have "json_representable v" using that JArray.prems by (simp add: list_all_iff)
    from JArray.IH[OF that this] show ?thesis by auto
  qed
  then have "map (\<lambda>v. JSON_parse (case JSON_stringify v of None \<Rightarrow> JsonNull | Some j \<Rightarrow> j)) vs = vs"
    by (simp add: map_idI)
  then show ?case by (simp add: comp_def)
next
  case (JObject kvs)
  have each: "\<exists>j. JSON_stringify v = Some j \<and> JSON_parse j = v" if "(k, v) \<in> set kvs" for k v
  proof -
    have "json_representable v" using that JObject.prems by (auto simp: list_all_iff)
    moreover have "v \<in> Basic_BNFs.snds (k, v)" by simp
    ultimately show ?thesis using JObject.IH[OF that] by auto
  qed
  have "map (\<lambda>(k, j). (k, JSON_parse j))
          (concat (map (\<lambda>(k, v). case JSON_stringify v of None \<Rightarrow> []
                                    | Some j \<Rightarrow> [(k, j)]) kvs)) = kvs"
    using each
  proof (induction kvs)
    case Nil
    show ?case by simp
  next
    case (Cons kv kvs)
    obtain k v where kv: "kv = (k, v)" by (cases kv)
    from Cons.prems[of k v] kv obtain j where j: "JSON_stringify v = Some j" "JSON_parse j = v"
      by auto
    have "map (\<lambda>(k, j). (k, JSON_parse j))
          (concat (map (\<lambda>(k, v). case JSON_stringify v of None \<Rightarrow> []
                                    | Some j \<Rightarrow> [(k, j)]) kvs)) = kvs"
      by (rule Cons.IH) (use Cons.prems in auto)
    then show ?case using kv j by simp
  qed
  then show ?case by simp
qed simp_all

text \<open>The object of a state is representable when the state is.\<close>

lemma opt_prop_representable:
  "list_all (\<lambda>(k, v). json_representable v) (opt_prop k v)
     = (case v of None \<Rightarrow> True | Some x \<Rightarrow> json_representable x)"
  by (simp add: opt_prop_def split: option.splits)

lemma js_strings_representable: "json_representable (js_strings xs)"
  by (simp add: js_strings_def list_all_iff)

lemma js_of_input_representable: "json_representable (js_of_input i)"
  by (simp add: js_of_input_def js_of_options_def opt_prop_representable split: option.splits)

lemma js_of_designContext_representable: "json_representable (js_of_designContext d)"
  by (simp add: js_of_designContext_def opt_prop_representable split: option.splits)

lemma js_of_screenshot_representable: "json_representable (js_of_screenshot sh)"
  by (simp add: js_of_screenshot_def js_of_format_def)

lemma js_of_field_representable: "json_representable (js_of_field f)"
  by (simp add: js_of_field_def)

lemma js_of_contentStructure_representable: "json_representable (js_of_contentStructure c)"
  by (cases "itemFields c")
     (simp_all add: js_of_contentStructure_def opt_prop_def list_all_iff js_of_field_representable)

lemma js_of_analysis_representable: "json_representable (js_of_analysis a)"
  by (simp add: js_of_analysis_def js_of_contentStructure_representable js_of_designTokens_def
      js_strings_representable)

lemma js_of_files_representable: "json_representable (js_of_files g)"
  by (simp add: js_of_files_def opt_prop_representable split: option.splits)

lemma js_of_validation_representable: "json_representable (js_of_validation v)"
  by (simp add: js_of_validation_def js_strings_representable)

lemma js_of_awaiting_representable: "json_representable (js_of_awaiting a)"
  by (simp add: js_of_awaiting_def)

lemma js_of_error_representable: "we_error e = Missing \<Longrightarrow> json_representable (js_of_error e)"
  by (simp add: js_of_error_def js_of_step_def opt_prop_representable split: option.splits)

lemma js_of_metadata_representable:
  "json_representable (md_structure m) \<Longrightarrow> json_representable (js_of_metadata m)"
  by (simp add: js_of_metadata_def)

lemma js_of_state_representable:
  assumes "state_representable st"
  shows "json_representable (js_of_state st)"
proof -
  have errs: "list_all json_representable (map js_of_error (errors st))"
    using assms by (auto simp: state_representable_def list_all_iff js_of_error_representable)
  have meta: "case metadata st of None \<Rightarrow> True | Some m \<Rightarrow> json_representable (js_of_metadata m)"
    using assms by (auto simp: state_representable_def js_of_metadata_representable split: option.splits)
  show ?thesis
    using errs meta
    by (simp add: js_of_state_def opt_prop_representable js_of_input_representable
        js_of_designContext_representable js_of_screenshot_representable
        js_of_analysis_representable js_of_files_representable js_of_validation_representable
        js_of_awaiting_representable js_of_step_def split: option.splits)
qed

text \<open>What \<open>writeFile\<close> wrote, \<open>readFile\<close> of the same path reads.\<close>

lemma fs_readFile_after_writeFile:
  "fs_writeFile disk file doc = Inr disk' \<Longrightarrow> fs_readFile disk' file = Inr doc"
  by (auto simp: fs_writeFile_def fs_readFile_def Let_def split: if_splits)

text \<open>When \<open>saveState\<close> returns, the file under the returned path holds the text of the state.\<close>

lemma saveState_returns:
  assumes "saveState config path disk st filename isoTime = Inr (disk', filePath)"
  shows "filePath = path_join path (stateDir config) (state_file_name st filename isoTime)
     \<and> (\<exists>doc. JSON_stringify (js_of_state st) = Some doc \<and> fs_readFile disk' filePath = Inr doc)"
  using assms
  by (auto simp: saveState_def Let_def fs_readFile_after_writeFile
      split: sum.splits option.splits)

text \<open>
  C9, as the code has it. Take a \<open>WorkflowState\<close> that JSON can represent: its optional
  properties are absent or hold a value, no error of its \<open>errors\<close> list has the key
  \<open>error\<close>, and the metadata structure, if any, is representable. When \<open>saveState\<close> of
  it returns (it makes \<open>stateDir\<close> and no other directory, so it is rejected when the name
  leads into a directory that does not exist), \<open>loadState\<close> at once after it returns the
  object of the saved state, every field, and the \<open>errors\<close> list with its elements in
  their order, in two cases: when it is given the name under which the state was saved (the
  \<open>filename\<close> argument, or the name made from the block name and the time) and that name
  is not an absolute path; and when it is given the path that \<open>saveState\<close> returned and
  that path is absolute.
\<close>

theorem save_then_load_representable_state:
  assumes rep: "state_representable st"
    and saved: "saveState config path disk st filename isoTime = Inr (disk', filePath)"
    and key: "key = state_file_name st filename isoTime \<and> \<not> path_isAbsolute path key
              \<or> key = filePath \<and> path_isAbsolute path filePath"
  shows "loadState config path disk' key = Inr (js_of_state st)"
proof -
  from saveState_returns[OF saved] obtain doc where
    filePath: "filePath = path_join path (stateDir config) (state_file_name st filename isoTime)"
    and doc: "JSON_stringify (js_of_state st) = Some doc"
    and stored: "fs_readFile disk' filePath = Inr doc"
    by blast
  from JSON_roundtrip[OF js_of_state_representable[OF rep]] doc
  have parse: "JSON_parse doc = js_of_state st" by simp
  have "(if path_isAbsolute path key then key else path_join path (stateDir config) key) = filePath"
    using key filePath by auto
  then show ?thesis
    using stored parse by (simp add: loadState_def Let_def)
qed

lemma unauthorized_run_representable: "state_representable (final_state unauthorized_run)"
  by code_simp

lemma unauthorized_run_saved:
  "\<not> isl (saveState DEFAULT_PERSISTENCE_CONFIG posix_path empty_disk
      (final_state unauthorized_run) (Some ''x-failed.json'') ''2026-01-01T00:00:00.000Z'')"
  by code_simp

lemma unauthorized_run_saved_absolute:
  "map_sum id snd (saveState absolute_config posix_path empty_disk
      (final_state unauthorized_run) (Some ''x-failed.json'') ''2026-01-01T00:00:00.000Z'')
   = Inr ''/var/states/x-failed.json''"
  by code_simp

text \<open>
  The state of the failed run, saved as \<open>x-failed.json\<close>: loaded by that name under the
  default \<open>stateDir\<close>, and loaded by the returned path under an absolute \<open>stateDir\<close>.
\<close>

theorem save_then_load_representable_state_witness:
  "saveState_then_loadState DEFAULT_PERSISTENCE_CONFIG posix_path empty_disk
     (final_state unauthorized_run) (Some ''x-failed.json'') ''2026-01-01T00:00:00.000Z''
     ''x-failed.json'' = Inr (js_of_state (final_state unauthorized_run))
   \<and> saveState_then_load_returned_path absolute_config posix_path empty_disk
     (final_state unauthorized_run) (Some ''x-failed.json'') ''2026-01-01T00:00:00.000Z''
     = Inr (js_of_state (final_state unauthorized_run))"
proof -
  obtain disk' filePath where saved:
    "saveState DEFAULT_PERSISTENCE_CONFIG posix_path empty_disk
      (final_state unauthorized_run) (Some ''x-failed.json'') ''2026-01-01T00:00:00.000Z''
       = Inr (disk', filePath)"
    using unauthorized_run_saved
    by (cases "saveState DEFAULT_PERSISTENCE_CONFIG posix_path empty_disk
      (final_state unauthorized_run) (Some ''x-failed.json'') ''2026-01-01T00:00:00.000Z''") auto
  have key: "''x-failed.json'' = state_file_name (final_state unauthorized_run)
        (Some ''x-failed.json'') ''2026-01-01T00:00:00.000Z''
      \<and> \<not> path_isAbsolute posix_path ''x-failed.json''
      \<or> ''x-failed.json'' = filePath \<and> path_isAbsolute posix_path filePath"
    by (simp add: state_file_name_def or_else_def posix_path_def)
  from save_then_load_representable_state[OF unauthorized_run_representable saved key]
  have by_name: "saveState_then_loadState DEFAULT_PERSISTENCE_CONFIG posix_path empty_disk
     (final_state unauthorized_run) (Some ''x-failed.json'') ''2026-01-01T00:00:00.000Z''
     ''x-failed.json'' = Inr (js_of_state (final_state unauthorized_run))"
    by (simp add: saveState_then_loadState_def saved)
  obtain disk2 where saved2:
    "saveState absolute_config posix_path empty_disk
      (final_state unauthorized_run) (Some ''x-failed.json'') ''2026-01-01T00:00:00.000Z''
       = Inr (disk2, ''/var/states/x-failed.json'')"
    using unauthorized_run_saved_absolute
    by (cases "saveState absolute_config posix_path empty_disk
      (final_state unauthorized_run) (Some ''x-failed.json'') ''2026-01-01T00:00:00.000Z''") auto
  have key2: "''/var/states/x-failed.json'' = state_file_name (final_state unauthorized_run)
        (Some ''x-failed.json'') ''2026-01-01T00:00:00.000Z''
      \<and> \<not> path_isAbsolute posix_path ''/var/states/x-failed.json''
      \<or> ''/var/states/x-failed.json'' = ''/var/states/x-failed.json''
        \<and> path_isAbsolute posix_path ''/var/states/x-failed.json''"
    by (simp add: posix_path_def)
  from save_then_load_representable_state[OF unauthorized_run_representable saved2 key2]
  have by_path: "saveState_then_load_returned_path absolute_config posix_path empty_disk
     (final_state unauthorized_run) (Some ''x-failed.json'') ''2026-01-01T00:00:00.000Z''
     = Inr (js_of_state (final_state unauthorized_run))"
    by (simp add: saveState_then_load_returned_path_def saved2)
  from by_name by_path show ?thesis by simp
qed

text \<open>
  C9 as it is written does not hold, on three counts. An error that \<open>createWorkflowError\<close>
  built from an \<open>Error\<close> is loaded back with \<open>error: {}\<close> in place of the \<open>Error\<close>.
  An error that \<open>createWorkflowError\<close> built without an \<open>Error\<close> has the key \<open>error\<close>
  with the value \<open>undefined\<close>, and is loaded back without the key. And with the default
  \<open>stateDir\<close>, which is relative, \<open>loadState\<close> of the path that \<open>saveState\<close> produced
  joins \<open>stateDir\<close> to it a second time and finds no file, for a state that JSON can
  represent.
\<close>

theorem save_then_load_error_object_counterexample:
  "saveState_then_loadState DEFAULT_PERSISTENCE_CONFIG posix_path empty_disk
     state_with_error_object (Some ''x-failed.json'') ''2026-01-01T00:00:00.000Z''
     ''x-failed.json'' \<noteq> Inr (js_of_state state_with_error_object)
   \<and> saveState_then_loadState DEFAULT_PERSISTENCE_CONFIG posix_path empty_disk
     state_with_undefined_error (Some ''x-failed.json'') ''2026-01-01T00:00:00.000Z''
     ''x-failed.json'' \<noteq> Inr (js_of_state state_with_undefined_error)
   \<and> state_representable (final_state unauthorized_run)
   \<and> saveState_then_load_returned_path DEFAULT_PERSISTENCE_CONFIG posix_path empty_disk
     (final_state unauthorized_run) (Some ''x-failed.json'') ''2026-01-01T00:00:00.000Z''
     = Inl (Rejected
         ''./.tmp/block-builder-states/./.tmp/block-builder-states/x-failed.json'')"
  by code_simp

text \<open>What the first two loads return: \<open>{}\<close> under \<open>error\<close>, and no key \<open>error\<close>.\<close>

lemma load_error_object:
  "map_sum id (\<lambda>v. case v of JObject kvs \<Rightarrow> map_of kvs ''errors'' | _ \<Rightarrow> None)
     (saveState_then_loadState DEFAULT_PERSISTENCE_CONFIG posix_path empty_disk
        state_with_error_object (Some ''x-failed.json'') ''2026-01-01T00:00:00.000Z''
        ''x-failed.json'')
   = Inr (Some (JArray [JObject
       [(''step'', JString ''generating''), (''message'', JString ''boom''),
        (''error'', JObject []), (''timestamp'', JNumber 95), (''retryable'', JBoolean False)]]))"
  by code_simp

lemma load_undefined_error:
  "map_sum id (\<lambda>v. case v of JObject kvs \<Rightarrow> map_of kvs ''errors'' | _ \<Rightarrow> None)
     (saveState_then_loadState DEFAULT_PERSISTENCE_CONFIG posix_path empty_disk
        state_with_undefined_error (Some ''x-failed.json'') ''2026-01-01T00:00:00.000Z''
        ''x-failed.json'')
   = Inr (Some (JArray [JObject
       [(''step'', JString ''generating''), (''message'', JString ''boom''),
        (''timestamp'', JNumber 95), (''retryable'', JBoolean False)]]))"
  by code_simp

text \<open>
  \<open>saveState\<close> makes \<open>stateDir\<close> only: a name that leads into a directory below it is
  rejected when that directory does not exist, and so is the name that is made from a block
  name with a slash in it.
\<close>

lemma saveState_missing_directory:
  "map_sum id snd
     (saveState DEFAULT_PERSISTENCE_CONFIG posix_path empty_disk
        (final_state unauthorized_run) (Some ''runs/x.json'') ''2026-01-01T00:00:00.000Z'')
   = Inl (Rejected ''./.tmp/block-builder-states/runs/x.json'')"
  by code_simp

text \<open>
  An absolute name is saved under \<open>stateDir\<close> and looked for where it points, so the load
  by name does not find it.
\<close>

lemma save_then_load_absolute_name:
  "saveState_then_loadState DEFAULT_PERSISTENCE_CONFIG posix_path empty_disk
     (final_state unauthorized_run) (Some ''/x.json'') ''2026-01-01T00:00:00.000Z''
     ''/x.json'' = Inl (Rejected ''/x.json'')"
  by code_simp

end
